theory Spec2Isabelle
  imports Complex_Main
begin

section \<open>The OrionRisc-128 BASIC interpreter\<close>

text \<open>
  A shallow embedding of \<^verbatim>\<open>basic-interpreter.c\<close> and \<^verbatim>\<open>basic-interpreter.h\<close>.

  Conventions of the embedding.
  \<^item> A C string is a \<^typ>\<open>string\<close>; its end is the terminating NUL.  A cursor
    \<^verbatim>\<open>const char **linePtr\<close> is the text that remains from the cursor on, so
    \<^verbatim>\<open>**linePtr\<close> is the head of that text, or NUL when it is empty, and
    \<^verbatim>\<open>(*linePtr)++\<close> is its tail.
  \<^item> A \<^verbatim>\<open>double\<close> is a \<^typ>\<open>real\<close>: rounding, signed zeros, infinities and NaN
    are not modelled, so a value or a printed digit can differ from the machine's where
    the arithmetic of the machine is not exact.
  \<^item> An \<^verbatim>\<open>int\<close> is an \<^typ>\<open>int\<close>.  The only integers that can leave the range of
    32 bits are the numbers the two digit loops read from the text; there the overflow
    of a signed integer, which C leaves undefined, is the wrap-around of the machine
    (\<open>int32\<close>).
  \<^item> A function that may not return (an endless loop, or a fault such as a NULL
    dereference) returns an \<^typ>\<open>'a option\<close>, with \<^term>\<open>None\<close> for "no return".
\<close>

subsection \<open>Limits and error codes (\<^verbatim>\<open>basic-interpreter.h\<close>)\<close>

definition MAX_PROGRAM_SIZE :: int where "MAX_PROGRAM_SIZE = 16384"
definition MAX_VARIABLES :: nat where "MAX_VARIABLES = 256"
definition MAX_LINE_LENGTH :: nat where "MAX_LINE_LENGTH = 256"
definition MAX_VAR_NAME_LENGTH :: nat where "MAX_VAR_NAME_LENGTH = 32"
definition MAX_ARRAY_DIMENSIONS :: nat where "MAX_ARRAY_DIMENSIONS = 3"

definition ERR_NONE :: int where "ERR_NONE = 0"
definition ERR_SYNTAX :: int where "ERR_SYNTAX = 1"
definition ERR_OUT_OF_MEMORY :: int where "ERR_OUT_OF_MEMORY = 2"
definition ERR_UNDEFINED_VARIABLE :: int where "ERR_UNDEFINED_VARIABLE = 3"
definition ERR_TYPE_MISMATCH :: int where "ERR_TYPE_MISMATCH = 4"
definition ERR_DIVISION_BY_ZERO :: int where "ERR_DIVISION_BY_ZERO = 5"
definition ERR_ARRAY_BOUNDS :: int where "ERR_ARRAY_BOUNDS = 6"
definition ERR_STACK_OVERFLOW :: int where "ERR_STACK_OVERFLOW = 7"
definition ERR_PROGRAM_TOO_LARGE :: int where "ERR_PROGRAM_TOO_LARGE = 8"
definition ERR_LINE_NOT_FOUND :: int where "ERR_LINE_NOT_FOUND = 9"
definition ERR_NEXT_WITHOUT_FOR :: int where "ERR_NEXT_WITHOUT_FOR = 10"

lemmas limit_defs =
  MAX_PROGRAM_SIZE_def MAX_VARIABLES_def MAX_LINE_LENGTH_def MAX_VAR_NAME_LENGTH_def
  MAX_ARRAY_DIMENSIONS_def

lemmas err_defs =
  ERR_NONE_def ERR_SYNTAX_def ERR_OUT_OF_MEMORY_def ERR_UNDEFINED_VARIABLE_def
  ERR_TYPE_MISMATCH_def ERR_DIVISION_BY_ZERO_def ERR_ARRAY_BOUNDS_def
  ERR_STACK_OVERFLOW_def ERR_PROGRAM_TOO_LARGE_def ERR_LINE_NOT_FOUND_def
  ERR_NEXT_WITHOUT_FOR_def

subsection \<open>Characters (\<^verbatim>\<open>ctype.h\<close> in the C locale, and the utility functions)\<close>

definition isdigit :: "char \<Rightarrow> bool" where
  "isdigit c = (48 \<le> (of_char c :: nat) \<and> (of_char c :: nat) \<le> 57)"

definition digit_value :: "char \<Rightarrow> nat" where
  \<comment> \<open>\<^verbatim>\<open>c - '0'\<close>, used only under \<^term>\<open>isdigit c\<close>\<close>
  "digit_value c = of_char c - 48"

definition toupper :: "char \<Rightarrow> char" where
  "toupper c = (if 97 \<le> (of_char c :: nat) \<and> (of_char c :: nat) \<le> 122
                then char_of ((of_char c :: nat) - 32) else c)"

definition basic_is_alpha :: "char \<Rightarrow> bool" where
  "basic_is_alpha c =
     ((65 \<le> (of_char c :: nat) \<and> (of_char c :: nat) \<le> 90) \<or>
      (97 \<le> (of_char c :: nat) \<and> (of_char c :: nat) \<le> 122))"

definition basic_is_alphanumeric :: "char \<Rightarrow> bool" where
  "basic_is_alphanumeric c = (basic_is_alpha c \<or> isdigit c)"

definition basic_str_toupper :: "string \<Rightarrow> string" where
  "basic_str_toupper str = map toupper str"

fun basic_skip_whitespace :: "string \<Rightarrow> string" where
  "basic_skip_whitespace [] = []"
| "basic_skip_whitespace (c # cs) =
     (if c = CHR '' '' \<or> c = CHR 0x09 then basic_skip_whitespace cs else c # cs)"

text \<open>
  \<^verbatim>\<open>basic_parse_int\<close>: the loop \<^verbatim>\<open>while (isdigit(**linePtr))\<close> with its accumulator, an
  \<^verbatim>\<open>int\<close> of 32 bits in two's complement.
\<close>

definition int32 :: "int \<Rightarrow> int" where
  "int32 x = (x + 2147483648) mod 4294967296 - 2147483648"

fun parse_int_loop :: "int \<Rightarrow> string \<Rightarrow> int \<times> string" where
  "parse_int_loop v [] = (v, [])"
| "parse_int_loop v (c # cs) =
     (if isdigit c then parse_int_loop (int32 (v * 10 + int (digit_value c))) cs
      else (v, c # cs))"

definition basic_parse_int :: "string \<Rightarrow> int \<times> string" where
  "basic_parse_int p = parse_int_loop 0 p"

text \<open>\<^verbatim>\<open>basic_parse_float\<close>: sign, integer part, then the fraction after a dot.\<close>

fun parse_float_int :: "real \<Rightarrow> string \<Rightarrow> real \<times> string" where
  "parse_float_int v [] = (v, [])"
| "parse_float_int v (c # cs) =
     (if isdigit c then parse_float_int (v * 10 + real (digit_value c)) cs else (v, c # cs))"

fun parse_float_frac :: "real \<Rightarrow> real \<Rightarrow> string \<Rightarrow> real \<times> string" where
  "parse_float_frac v fraction [] = (v, [])"
| "parse_float_frac v fraction (c # cs) =
     (if isdigit c
      then parse_float_frac (v + real (digit_value c) * fraction) (fraction * (1 / 10)) cs
      else (v, c # cs))"

definition basic_parse_float :: "string \<Rightarrow> real \<times> string" where
  "basic_parse_float p =
     (let (sign, p1) =
            (case p of
               c # cs \<Rightarrow> if c = CHR ''-'' then (- 1, cs)
                         else if c = CHR ''+'' then (1, cs) else (1, p)
             | [] \<Rightarrow> (1, p));
          (v, p2) = parse_float_int 0 p1;
          (v', p3) =
            (case p2 of
               c # cs \<Rightarrow> if c = CHR ''.'' then parse_float_frac v (1 / 10) cs else (v, p2)
             | [] \<Rightarrow> (v, p2))
      in (v' * sign, p3))"

subsection \<open>Tokens and the lexer\<close>

datatype TokenType =
    TOK_EOL | TOK_NUMBER | TOK_STRING | TOK_VARIABLE
  | TOK_PRINT | TOK_INPUT | TOK_LET | TOK_IF | TOK_THEN | TOK_ELSE
  | TOK_FOR | TOK_TO | TOK_STEP | TOK_NEXT | TOK_GOSUB | TOK_RETURN | TOK_GOTO
  | TOK_READ | TOK_DATA | TOK_DIM | TOK_END | TOK_STOP | TOK_REM
  | TOK_COMMA | TOK_SEMICOLON | TOK_COLON | TOK_LPAREN | TOK_RPAREN
  | TOK_PLUS | TOK_MINUS | TOK_MULTIPLY | TOK_DIVIDE | TOK_EQUALS
  | TOK_LESS | TOK_GREATER | TOK_LESS_EQUAL | TOK_GREATER_EQUAL | TOK_NOT_EQUAL
  | TOK_AND | TOK_OR | TOK_NOT | TOK_FUNCTION

text \<open>
  The C token is one static object that every call overwrites in part.  A caller reads
  only the fields the call has just written, so the fields a call leaves alone are
  given fixed values here (\<^verbatim>\<open>intValue\<close> is never written or read).
\<close>

record Token =
  type :: TokenType
  stringValue :: string
  floatValue :: real

definition mk_token :: "TokenType \<Rightarrow> Token" where
  "mk_token t = \<lparr>type = t, stringValue = [], floatValue = 0\<rparr>"

definition basic_get_keyword_type :: "string \<Rightarrow> TokenType" where
  "basic_get_keyword_type word =
     (if word = ''PRINT'' then TOK_PRINT
      else if word = ''INPUT'' then TOK_INPUT
      else if word = ''LET'' then TOK_LET
      else if word = ''IF'' then TOK_IF
      else if word = ''THEN'' then TOK_THEN
      else if word = ''ELSE'' then TOK_ELSE
      else if word = ''FOR'' then TOK_FOR
      else if word = ''TO'' then TOK_TO
      else if word = ''STEP'' then TOK_STEP
      else if word = ''NEXT'' then TOK_NEXT
      else if word = ''GOSUB'' then TOK_GOSUB
      else if word = ''RETURN'' then TOK_RETURN
      else if word = ''GOTO'' then TOK_GOTO
      else if word = ''READ'' then TOK_READ
      else if word = ''DATA'' then TOK_DATA
      else if word = ''DIM'' then TOK_DIM
      else if word = ''END'' then TOK_END
      else if word = ''STOP'' then TOK_STOP
      else if word = ''REM'' then TOK_REM
      else if word = ''AND'' then TOK_AND
      else if word = ''OR'' then TOK_OR
      else if word = ''NOT'' then TOK_NOT
      else TOK_EOL)"

definition basic_is_keyword :: "string \<Rightarrow> bool" where
  "basic_is_keyword word =
     (word \<in> set [''PRINT'', ''INPUT'', ''LET'', ''IF'', ''THEN'', ''ELSE'', ''FOR'', ''TO'',
        ''STEP'', ''NEXT'', ''GOSUB'', ''RETURN'', ''GOTO'', ''READ'', ''DATA'', ''DIM'', ''END'',
        ''STOP'', ''REM'', ''AND'', ''OR'', ''NOT''])"

text \<open>
  The identifier branch of \<^verbatim>\<open>basic_get_token\<close>.  \<^term>\<open>ident\<close> is the run of
  letters and digits the cursor has moved over, so the cursor stands just behind its
  last character, and \<^verbatim>\<open>*(*linePtr - 1)\<close> is \<^term>\<open>last ident\<close>.  The token text
  is the first \<^verbatim>\<open>MAX_VAR_NAME_LENGTH - 1\<close> characters (\<^verbatim>\<open>strncpy\<close>), in upper case.
\<close>

definition identifier_token :: "string \<Rightarrow> Token" where
  "identifier_token ident =
     (let text = basic_str_toupper (take (MAX_VAR_NAME_LENGTH - 1) ident);
          kw = basic_get_keyword_type text;
          t = (if kw = TOK_EOL
               then (if length text = 1 then TOK_VARIABLE
                     else if last ident = CHR ''('' then TOK_FUNCTION
                     else TOK_VARIABLE)
               else kw)
      in \<lparr>type = t, stringValue = text, floatValue = 0\<rparr>)"

text \<open>
  Through the cursor \<^verbatim>\<open>basic_get_token\<close> also writes into the line text (it casts the
  \<^verbatim>\<open>const char *\<close> away).  Behind an identifier it puts a NUL while it copies the
  token text and then puts the saved character back; over the closing quote of a string
  it puts a NUL that stays.  \<open>Store\<close> names the store a call makes.
\<close>

datatype Store = NoStore | Restored | Kept

text \<open>
  \<open>lex_token\<close> is \<^verbatim>\<open>basic_get_token\<close> on the characters at the cursor: the token
  (or \<^term>\<open>None\<close> for the NULL the C function returns on an unrecognised character),
  the advanced cursor, and the store made into the text.  What the store does to the
  memory of the process is part of \<open>basic_get_token\<close> below.
\<close>

definition lex_token :: "string \<Rightarrow> Token option \<times> string \<times> Store" where
  "lex_token p0 =
     (case basic_skip_whitespace p0 of
        [] \<Rightarrow> (Some (mk_token TOK_EOL), [], NoStore)
      | c # cs \<Rightarrow>
          if isdigit c \<or> (c = CHR ''.'' \<and> (case cs of [] \<Rightarrow> False | d # _ \<Rightarrow> isdigit d))
          then (let (v, p') = basic_parse_float (c # cs)
                in (Some \<lparr>type = TOK_NUMBER, stringValue = [], floatValue = v\<rparr>, p', NoStore))
          else if c = CHR 0x22
          then (let body = takeWhile (\<lambda>x. x \<noteq> CHR 0x22) cs;
                    rest = dropWhile (\<lambda>x. x \<noteq> CHR 0x22) cs;
                    token = \<lparr>type = TOK_STRING,
                             stringValue = take (MAX_VAR_NAME_LENGTH - 1) body, floatValue = 0\<rparr>
                in (case rest of
                      [] \<Rightarrow> (Some token, [], NoStore)
                    | _ # rest' \<Rightarrow> (Some token, rest', Kept)))
          else if c = CHR ''+'' then (Some (mk_token TOK_PLUS), cs, NoStore)
          else if c = CHR ''-'' then (Some (mk_token TOK_MINUS), cs, NoStore)
          else if c = CHR ''*'' then (Some (mk_token TOK_MULTIPLY), cs, NoStore)
          else if c = CHR ''/'' then (Some (mk_token TOK_DIVIDE), cs, NoStore)
          else if c = CHR ''='' then (Some (mk_token TOK_EQUALS), cs, NoStore)
          else if c = CHR ''<''
          then (case cs of
                  d # ds \<Rightarrow> if d = CHR ''='' then (Some (mk_token TOK_LESS_EQUAL), ds, NoStore)
                            else if d = CHR ''>'' then (Some (mk_token TOK_NOT_EQUAL), ds, NoStore)
                            else (Some (mk_token TOK_LESS), cs, NoStore)
                | [] \<Rightarrow> (Some (mk_token TOK_LESS), cs, NoStore))
          else if c = CHR ''>''
          then (case cs of
                  d # ds \<Rightarrow> if d = CHR ''='' then (Some (mk_token TOK_GREATER_EQUAL), ds, NoStore)
                            else (Some (mk_token TOK_GREATER), cs, NoStore)
                | [] \<Rightarrow> (Some (mk_token TOK_GREATER), cs, NoStore))
          else if c = CHR ''('' then (Some (mk_token TOK_LPAREN), cs, NoStore)
          else if c = CHR '')'' then (Some (mk_token TOK_RPAREN), cs, NoStore)
          else if c = CHR '','' then (Some (mk_token TOK_COMMA), cs, NoStore)
          else if c = CHR '';'' then (Some (mk_token TOK_SEMICOLON), cs, NoStore)
          else if c = CHR '':'' then (Some (mk_token TOK_COLON), cs, NoStore)
          else if basic_is_alpha c
          then (Some (identifier_token (takeWhile basic_is_alphanumeric (c # cs))),
                dropWhile basic_is_alphanumeric (c # cs), Restored)
          else (None, c # cs, NoStore))"

subsection \<open>Variables, the interpreter state and the process\<close>

datatype VariableType = VAR_NUMERIC | VAR_STRING | VAR_ARRAY_NUMERIC | VAR_ARRAY_STRING

text \<open>
  The C variable is a tag (\<^verbatim>\<open>type\<close>) and a union (\<^verbatim>\<open>value\<close>); here the payload is
  a datatype with one constructor per member of the union and the tag is read off the
  constructor.  A pointer member may be NULL (\<^term>\<open>None\<close>).  A numeric array is
  the block \<^verbatim>\<open>calloc\<close> returns.
\<close>

datatype Payload =
    NumericValue real
  | StringValue "string option"
  | NumericArray "real list option"
  | StringArray "string list option"

record Variable =
  name :: string
  dimensions :: "int list"
  size :: int
  payload :: Payload

fun payload_type :: "Payload \<Rightarrow> VariableType" where
  "payload_type (NumericValue _) = VAR_NUMERIC"
| "payload_type (StringValue _) = VAR_STRING"
| "payload_type (NumericArray _) = VAR_ARRAY_NUMERIC"
| "payload_type (StringArray _) = VAR_ARRAY_STRING"

definition vtype :: "Variable \<Rightarrow> VariableType" where
  \<comment> \<open>the field \<^verbatim>\<open>type\<close> of the C variable\<close>
  "vtype v = payload_type (payload v)"

record ProgramLine =
  lineNumber :: int
  lineText :: string

text \<open>
  The state of one interpreter.  \<^term>\<open>programLines\<close> is the linked list of lines
  in the order of its \<^verbatim>\<open>next\<close> pointers.  \<^term>\<open>variables\<close> is the live part
  \<^verbatim>\<open>variables[0 .. variableCount)\<close> of the variable table, so \<^verbatim>\<open>variableCount\<close> is
  its length.  The two control stacks are arrays with their stack pointers, as in C.
\<close>

record BASICState =
  programLines :: "ProgramLine list"
  currentLineNumber :: int
  programSize :: int
  variables :: "Variable list"
  running :: int
  errorCode :: int
  errorMessage :: string
  forStack :: "nat \<Rightarrow> int"
  forStackPtr :: int
  gosubStack :: "nat \<Rightarrow> int"
  gosubStackPtr :: int
  dataPointer :: "string option"
  dataCount :: int
  inputBuffer :: string
  inputIndex :: int

definition variableCount :: "BASICState \<Rightarrow> int" where
  "variableCount s = int (length (variables s))"

text \<open>
  A state pointer is NULL (\<^term>\<open>None\<close>) or the address of a state: of the one
  \<^verbatim>\<open>static BASICState globalState\<close> or of a state object of the caller.
\<close>

datatype ref = Global | Obj nat

text \<open>
  The process: the states in memory, the console, and the two collaborators whose
  answers the interpreter cannot predict: \<^verbatim>\<open>rand()\<close> (as the successive values of
  \<^verbatim>\<open>(double)rand() / RAND_MAX\<close>; an exhausted list stands for zeros) and the
  allocator (whether each successive \<^verbatim>\<open>malloc\<close>/\<^verbatim>\<open>calloc\<close> succeeds; an exhausted list
  stands for success).  \<^term>\<open>uninitialised\<close> is the text that stands in the array
  \<^verbatim>\<open>inputBuffer\<close> of \<^verbatim>\<open>basic_handle_input\<close> before anything is read into it.

  The text of the statement being executed is an array of characters in the memory of
  the process too.  A cursor is the string of the characters from its position to the
  end of that text.  \<^term>\<open>text_writable\<close> tells whether the array can be written (the
  text of a program line, which \<^verbatim>\<open>addLine\<close> has allocated, or a buffer of the
  caller) or cannot (a string literal, as in the calls of the test program), and
  \<^term>\<open>text_nul\<close> records the NUL the lexer has left in it: \<^term>\<open>Some k\<close> when the
  character in front of the last \<open>k\<close> characters of the text has been overwritten
  (the characters from there on are cut off for whoever reads the text from its start
  again).
\<close>

record Process =
  mem :: "ref \<Rightarrow> BASICState"
  stdout :: string
  stdin :: string
  rand_values :: "real list"
  malloc_results :: "bool list"
  uninitialised :: string
  text_writable :: bool
  text_nul :: "nat option"

definition upd :: "ref \<Rightarrow> (BASICState \<Rightarrow> BASICState) \<Rightarrow> Process \<Rightarrow> Process" where
  "upd r f P = P\<lparr>mem := (mem P)(r := f (mem P r))\<rparr>"

definition deref :: "ref option \<Rightarrow> ref" where
  \<comment> \<open>\<^verbatim>\<open>if (!state) state = &globalState;\<close>\<close>
  "deref state = (case state of None \<Rightarrow> Global | Some r \<Rightarrow> r)"

definition basic_set_error :: "ref option \<Rightarrow> int \<Rightarrow> string \<Rightarrow> Process \<Rightarrow> Process" where
  "basic_set_error state code message P =
     upd (deref state) (\<lambda>s. s\<lparr>errorCode := code, errorMessage := take 255 message\<rparr>) P"

text \<open>
  \<open>text_store\<close> is the effect of the lexer's store on the process, for the cursor
  \<open>p'\<close> behind the token: a store into text that cannot be written is a fault (the
  call does not return); the NUL that is taken back leaves writable text as it was;
  the NUL over a closing quote is recorded (the first NUL of the text is the one that
  cuts it, so an earlier one, further from the end, is kept).
\<close>

definition text_store :: "Store \<Rightarrow> string \<Rightarrow> Process \<Rightarrow> Process option" where
  "text_store st p' P =
     (case st of
        NoStore \<Rightarrow> Some P
      | Restored \<Rightarrow> if text_writable P then Some P else None
      | Kept \<Rightarrow>
          if text_writable P
          then Some (P\<lparr>text_nul :=
                  Some (case text_nul P of None \<Rightarrow> length p' | Some k \<Rightarrow> max k (length p'))\<rparr>)
          else None)"

text \<open>
  \<^verbatim>\<open>basic_get_token\<close>: \<^term>\<open>None\<close> when the call does not return, else the pointer
  to the token (NULL after an unrecognised character, with the error set in the global
  state), the cursor and the process.
\<close>

definition basic_get_token ::
  "string \<Rightarrow> Process \<Rightarrow> (Token option \<times> string \<times> Process) option" where
  "basic_get_token p P =
     (case lex_token p of
        (t, p', st) \<Rightarrow>
          (case text_store st p' P of
             None \<Rightarrow> None
           | Some P1 \<Rightarrow>
               (case t of
                  None \<Rightarrow>
                    Some (None, p',
                      basic_set_error (Some Global) ERR_SYNTAX ''Unrecognized character'' P1)
                | Some token \<Rightarrow> Some (Some token, p', P1))))"

subsection \<open>Console and library functions\<close>

definition basic_print_char :: "char \<Rightarrow> Process \<Rightarrow> Process" where
  "basic_print_char c P = P\<lparr>stdout := stdout P @ [c]\<rparr>"

definition basic_print_string :: "string \<Rightarrow> Process \<Rightarrow> Process" where
  "basic_print_string str P = P\<lparr>stdout := stdout P @ str\<rparr>"

definition basic_print_newline :: "Process \<Rightarrow> Process" where
  "basic_print_newline P = P\<lparr>stdout := stdout P @ [CHR 0x0A]\<rparr>"

definition basic_malloc :: "Process \<Rightarrow> bool \<times> Process" where
  \<comment> \<open>whether the allocation succeeds\<close>
  "basic_malloc P =
     (case malloc_results P of
        [] \<Rightarrow> (True, P)
      | b # bs \<Rightarrow> (b, P\<lparr>malloc_results := bs\<rparr>))"

text \<open>
  \<^verbatim>\<open>basic_input_string\<close>: \<^verbatim>\<open>fgets\<close> reads at most \<^verbatim>\<open>maxLength - 1\<close> characters and
  stops behind a newline; the buffer is cut at that newline.  At end of input nothing is
  read and the buffer keeps what it held.
\<close>

definition basic_input_string :: "string \<Rightarrow> nat \<Rightarrow> Process \<Rightarrow> string \<times> Process" where
  "basic_input_string buffer maxLength P =
     (if stdin P = [] then (buffer, P)
      else let pre = takeWhile (\<lambda>c. c \<noteq> CHR 0x0A) (stdin P)
           in if length pre < maxLength - 1
              then (pre, P\<lparr>stdin := drop (Suc (length pre)) (stdin P)\<rparr>)
              else (take (maxLength - 1) (stdin P),
                    P\<lparr>stdin := drop (maxLength - 1) (stdin P)\<rparr>))"

text \<open>
  \<^verbatim>\<open>basic_val\<close> is \<^verbatim>\<open>atof\<close>: white space, a sign, decimal digits with an optional
  fraction and an optional decimal exponent; text that does not start a number gives 0.
  Hexadecimal numbers, infinities and NaN are not modelled.
\<close>

definition isspace :: "char \<Rightarrow> bool" where
  "isspace c = ((of_char c :: nat) = 32 \<or> (9 \<le> (of_char c :: nat) \<and> (of_char c :: nat) \<le> 13))"

fun atof_digits :: "int \<Rightarrow> string \<Rightarrow> int" where
  "atof_digits v [] = v"
| "atof_digits v (c # cs) =
     (if isdigit c then atof_digits (v * 10 + int (digit_value c)) cs else v)"

definition atof_exponent :: "string \<Rightarrow> int" where
  "atof_exponent p =
     (case p of
        [] \<Rightarrow> 0
      | e # p1 \<Rightarrow>
          if e = CHR ''e'' \<or> e = CHR ''E''
          then (let (neg, p2) =
                      (case p1 of
                         c # cs \<Rightarrow> if c = CHR ''-'' then (True, cs)
                                   else if c = CHR ''+'' then (False, cs) else (False, p1)
                       | [] \<Rightarrow> (False, p1));
                    n = atof_digits 0 p2
                in if neg then - n else n)
          else 0)"

definition basic_val :: "string \<Rightarrow> real" where
  "basic_val str =
     (let (m, rest) = basic_parse_float (dropWhile isspace str);
          e = atof_exponent rest
      in if 0 \<le> e then m * 10 ^ nat e else m / 10 ^ nat (- e))"

text \<open>
  \<^verbatim>\<open>printf("%.6f", value)\<close>: the value rounded to six decimals (ties to even), a minus
  sign for a negative value, the integer part, a dot and six digits.
\<close>

fun show_nat :: "nat \<Rightarrow> string" where
  "show_nat n =
     (if n < 10 then [char_of (48 + n)] else show_nat (n div 10) @ [char_of (48 + n mod 10)])"

declare show_nat.simps [simp del]

definition round_half_even :: "real \<Rightarrow> int" where
  "round_half_even x =
     (let f = \<lfloor>x\<rfloor>; d = x - of_int f
      in if d < 1 / 2 then f else if 1 / 2 < d then f + 1 else if even f then f else f + 1)"

definition format_6f :: "real \<Rightarrow> string" where
  "format_6f x =
     (let n = nat (round_half_even (\<bar>x\<bar> * 1000000));
          frac = show_nat (n mod 1000000)
      in (if x < 0 then ''-'' else []) @ show_nat (n div 1000000) @ ''.'' @
         replicate (6 - length frac) CHR ''0'' @ frac)"

definition printf_6f :: "real \<Rightarrow> Process \<Rightarrow> Process" where
  "printf_6f v P = P\<lparr>stdout := stdout P @ format_6f v\<rparr>"

subsection \<open>The variable store\<close>

fun find_variable_from :: "Variable list \<Rightarrow> string \<Rightarrow> nat \<Rightarrow> nat option" where
  "find_variable_from [] nm i = None"
| "find_variable_from (v # vs) nm i =
     (if name v = nm then Some i else find_variable_from vs nm (Suc i))"

definition basic_find_variable :: "BASICState \<Rightarrow> string \<Rightarrow> nat option" where
  \<comment> \<open>the index of the variable found, for the pointer into the table\<close>
  "basic_find_variable s nm = find_variable_from (variables s) nm 0"

text \<open>
  \<^verbatim>\<open>basic_create_variable\<close> takes the next slot of the table.  The slot's
  \<^verbatim>\<open>dimensions\<close> and \<^verbatim>\<open>size\<close> are not written (and never read for a scalar); an
  array payload is not initialised here.
\<close>

definition basic_create_variable ::
  "ref \<Rightarrow> string \<Rightarrow> VariableType \<Rightarrow> Process \<Rightarrow> nat option \<times> Process" where
  "basic_create_variable r nm t P =
     (if variableCount (mem P r) \<ge> int MAX_VARIABLES
      then (None, basic_set_error (Some r) ERR_OUT_OF_MEMORY ''Too many variables'' P)
      else
        let i = length (variables (mem P r));
            (pl, P1) =
              (case t of
                 VAR_NUMERIC \<Rightarrow> (NumericValue 0, P)
               | VAR_STRING \<Rightarrow>
                   (let (ok, P') = basic_malloc P
                    in (StringValue (if ok then Some [] else None), P'))
               | VAR_ARRAY_NUMERIC \<Rightarrow> (NumericArray None, P)
               | VAR_ARRAY_STRING \<Rightarrow> (StringArray None, P));
            var = \<lparr>name = take (MAX_VAR_NAME_LENGTH - 1) nm, dimensions = [], size = 0,
                   payload = pl\<rparr>
        in (Some i, upd r (\<lambda>s. s\<lparr>variables := variables s @ [var]\<rparr>) P1))"

text \<open>
  \<^verbatim>\<open>basic_get_variable_value\<close>.  A string variable is converted with \<^verbatim>\<open>atof\<close>, which
  faults on the NULL of a string that could not be allocated.
\<close>

definition basic_get_variable_value ::
  "ref \<Rightarrow> string \<Rightarrow> Process \<Rightarrow> (real \<times> Process) option" where
  "basic_get_variable_value r varName P =
     (case basic_find_variable (mem P r) varName of
        None \<Rightarrow>
          Some (0, basic_set_error (Some r) ERR_UNDEFINED_VARIABLE ''Undefined variable'' P)
      | Some i \<Rightarrow>
          (case payload (variables (mem P r) ! i) of
             NumericValue x \<Rightarrow> Some (x, P)
           | StringValue str \<Rightarrow>
               (case str of None \<Rightarrow> None | Some text \<Rightarrow> Some (basic_val text, P))
           | _ \<Rightarrow>
               Some (0, basic_set_error (Some r) ERR_TYPE_MISMATCH ''Variable is not numeric'' P)))"

definition basic_set_variable_value :: "ref \<Rightarrow> string \<Rightarrow> real \<Rightarrow> Process \<Rightarrow> Process" where
  "basic_set_variable_value r varName v P =
     (let (var, P1) =
            (case basic_find_variable (mem P r) varName of
               None \<Rightarrow> basic_create_variable r varName VAR_NUMERIC P
             | Some i \<Rightarrow> (Some i, P))
      in case var of
           None \<Rightarrow> P1
         | Some i \<Rightarrow>
             if vtype (variables (mem P1 r) ! i) = VAR_NUMERIC
             then upd r (\<lambda>s. s\<lparr>variables :=
                    (variables s)[i := (variables s ! i)\<lparr>payload := NumericValue v\<rparr>]\<rparr>) P1
             else P1)"

text \<open>
  \<^verbatim>\<open>basic_create_array\<close>: the slot is taken before the block is allocated, so a failed
  allocation leaves an array variable with a NULL block behind.
\<close>

definition basic_create_array ::
  "ref \<Rightarrow> string \<Rightarrow> int list \<Rightarrow> nat \<Rightarrow> Process \<Rightarrow> int \<times> Process" where
  "basic_create_array r nm dims dimCount P =
     (if variableCount (mem P r) \<ge> int MAX_VARIABLES
      then (0, basic_set_error (Some r) ERR_OUT_OF_MEMORY ''Too many variables'' P)
      else
        let (ok, P1) = basic_malloc P;
            var = \<lparr>name = take (MAX_VAR_NAME_LENGTH - 1) nm,
                   dimensions = take (min dimCount MAX_ARRAY_DIMENSIONS) dims,
                   size = int dimCount,
                   payload = NumericArray (if ok then Some (replicate 1000 0) else None)\<rparr>;
            P2 = upd r (\<lambda>s. s\<lparr>variables := variables s @ [var]\<rparr>) P1
        in if ok then (1, P2)
           else (0, basic_set_error (Some r) ERR_OUT_OF_MEMORY ''Cannot allocate array memory'' P2))"

subsection \<open>The expression evaluator\<close>

text \<open>
  The operator chain of \<^verbatim>\<open>basic_evaluate_expression\<close>: the operator at the cursor, as
  the function that combines \<^verbatim>\<open>left\<close> with the next term, and the cursor behind it.
\<close>

definition truth :: "bool \<Rightarrow> real" where
  "truth b = (if b then 1 else 0)"

definition expression_operator :: "string \<Rightarrow> ((real \<Rightarrow> real \<Rightarrow> real) \<times> string) option" where
  "expression_operator p =
     (case p of
        [] \<Rightarrow> None
      | c # cs \<Rightarrow>
          if c = CHR ''+'' then Some (\<lambda>left x. left + x, cs)
          else if c = CHR ''-'' then Some (\<lambda>left x. left - x, cs)
          else if c = CHR ''='' then Some (\<lambda>left x. truth (left = x), cs)
          else if c = CHR ''<''
          then (case cs of
                  d # ds \<Rightarrow>
                    if d = CHR ''='' then Some (\<lambda>left x. truth (left \<le> x), ds)
                    else if d = CHR ''>'' then Some (\<lambda>left x. truth (left \<noteq> x), ds)
                    else Some (\<lambda>left x. truth (left < x), cs)
                | [] \<Rightarrow> Some (\<lambda>left x. truth (left < x), cs))
          else if c = CHR ''>''
          then (case cs of
                  d # ds \<Rightarrow>
                    if d = CHR ''='' then Some (\<lambda>left x. truth (left \<ge> x), ds)
                    else Some (\<lambda>left x. truth (left > x), cs)
                | [] \<Rightarrow> Some (\<lambda>left x. truth (left > x), cs))
          else None)"

definition basic_rnd :: "real \<Rightarrow> Process \<Rightarrow> real \<times> Process" where
  "basic_rnd x P =
     (case rand_values P of
        [] \<Rightarrow> (0, P)
      | u # us \<Rightarrow> (u * x, P\<lparr>rand_values := us\<rparr>))"

definition basic_sgn :: "real \<Rightarrow> real" where
  "basic_sgn x = (if x > 0 then 1 else if x < 0 then - 1 else 0)"

text \<open>The dispatch at the end of \<^verbatim>\<open>basic_evaluate_function\<close>, on the real numbers.\<close>

definition call_function :: "ref \<Rightarrow> string \<Rightarrow> real \<Rightarrow> Process \<Rightarrow> real \<times> Process" where
  "call_function r functionName argument P =
     (if functionName = ''ABS'' then (\<bar>argument\<bar>, P)
      else if functionName = ''RND'' then basic_rnd argument P
      else if functionName = ''SQR'' then (sqrt argument, P)
      else if functionName = ''SIN'' then (sin argument, P)
      else if functionName = ''COS'' then (cos argument, P)
      else if functionName = ''TAN'' then (tan argument, P)
      else if functionName = ''LOG'' then (ln argument, P)
      else if functionName = ''EXP'' then (exp argument, P)
      else if functionName = ''INT'' then (of_int \<lfloor>argument\<rfloor>, P)
      else if functionName = ''SGN'' then (basic_sgn argument, P)
      else (0, basic_set_error (Some r) ERR_SYNTAX ''Unknown function'' P))"

definition skip_sign :: "string \<Rightarrow> real \<times> string" where
  \<comment> \<open>the unary minus, then the unary plus, of \<^verbatim>\<open>basic_evaluate_factor\<close>\<close>
  "skip_sign p =
     (let (sign, p1) =
            (case p of c # cs \<Rightarrow> if c = CHR ''-'' then (- 1, cs) else (1, p) | [] \<Rightarrow> (1, p));
          p2 = (case p1 of c # cs \<Rightarrow> if c = CHR ''+'' then cs else p1 | [] \<Rightarrow> p1)
      in (sign, p2))"

lemma length_skip_whitespace [termination_simp]:
  "length (basic_skip_whitespace p) \<le> length p"
  by (induction p) auto

lemma length_skip_sign: "skip_sign p = (sign, p') \<Longrightarrow> length p' \<le> length p"
  by (auto simp: skip_sign_def split: list.splits if_splits)

lemma skip_whitespace_Cons: "basic_skip_whitespace p = c # cs \<Longrightarrow> length cs < length p"
  using length_skip_whitespace [of p] by simp

text \<open>
  The recursive descent.  The two \<^verbatim>\<open>while (1)\<close> loops are the functions
  \<open>expression_loop\<close> and \<open>term_loop\<close>, with \<^verbatim>\<open>left\<close> as their accumulator.  Each
  function returns the value, the advanced cursor and the process.

  A loop goes on from the cursor its operand has left behind.  The test
  \<open>length p2 \<le> length p1\<close> before it does so only serves the termination proof: a
  cursor never moves backwards (\<open>evaluate_cursor\<close> below), so the test always holds,
  and the equations without it are proved as \<open>expression_loop_eq\<close> and \<open>term_loop_eq\<close>.
\<close>

function
  basic_evaluate_expression :: "ref \<Rightarrow> string \<Rightarrow> Process \<Rightarrow> (real \<times> string \<times> Process) option" and
  expression_loop :: "ref \<Rightarrow> real \<Rightarrow> string \<Rightarrow> Process \<Rightarrow> (real \<times> string \<times> Process) option" and
  basic_evaluate_term :: "ref \<Rightarrow> string \<Rightarrow> Process \<Rightarrow> (real \<times> string \<times> Process) option" and
  term_loop :: "ref \<Rightarrow> real \<Rightarrow> string \<Rightarrow> Process \<Rightarrow> (real \<times> string \<times> Process) option" and
  basic_evaluate_factor :: "ref \<Rightarrow> string \<Rightarrow> Process \<Rightarrow> (real \<times> string \<times> Process) option" and
  basic_evaluate_function ::
    "ref \<Rightarrow> string \<Rightarrow> string \<Rightarrow> Process \<Rightarrow> (real \<times> string \<times> Process) option"
where
  "basic_evaluate_expression r p P =
     (case basic_evaluate_term r p P of
        None \<Rightarrow> None
      | Some (left, p1, P1) \<Rightarrow>
          if length p1 \<le> length p then expression_loop r left p1 P1 else None)"
| "expression_loop r left p P =
     (case expression_operator (basic_skip_whitespace p) of
        None \<Rightarrow> Some (left, basic_skip_whitespace p, P)
      | Some (f, p1) \<Rightarrow>
          (case basic_evaluate_term r p1 P of
             None \<Rightarrow> None
           | Some (x, p2, P2) \<Rightarrow>
               if length p2 \<le> length p1 then expression_loop r (f left x) p2 P2 else None))"
| "basic_evaluate_term r p P =
     (case basic_evaluate_factor r p P of
        None \<Rightarrow> None
      | Some (left, p1, P1) \<Rightarrow>
          if length p1 \<le> length p then term_loop r left p1 P1 else None)"
| "term_loop r left p P =
     (case basic_skip_whitespace p of
        [] \<Rightarrow> Some (left, [], P)
      | c # cs \<Rightarrow>
          if c = CHR ''*''
          then (case basic_evaluate_factor r cs P of
                  None \<Rightarrow> None
                | Some (x, p2, P2) \<Rightarrow>
                    if length p2 \<le> length cs then term_loop r (left * x) p2 P2 else None)
          else if c = CHR ''/''
          then (case basic_evaluate_factor r cs P of
                  None \<Rightarrow> None
                | Some (right, p2, P2) \<Rightarrow>
                    if right = 0
                    then Some (0, p2,
                           basic_set_error (Some r) ERR_DIVISION_BY_ZERO ''Division by zero'' P2)
                    else if length p2 \<le> length cs then term_loop r (left / right) p2 P2
                    else None)
          else Some (left, c # cs, P))"
| "basic_evaluate_factor r p P =
     (case skip_sign (basic_skip_whitespace p) of
        (sign, p2) \<Rightarrow>
          (case basic_skip_whitespace p2 of
             [] \<Rightarrow>
               Some (0, [],
                 basic_set_error (Some r) ERR_SYNTAX ''Expected number, variable, or expression'' P)
           | c # cs \<Rightarrow>
               if c = CHR ''(''
               then (case basic_evaluate_expression r cs P of
                       None \<Rightarrow> None
                     | Some (result, p5, P5) \<Rightarrow>
                         (case p5 of
                            [] \<Rightarrow>
                              Some (0, p5,
                                basic_set_error (Some r) ERR_SYNTAX ''Missing closing parenthesis'' P5)
                          | d # ds \<Rightarrow>
                              if d \<noteq> CHR '')''
                              then Some (0, p5,
                                     basic_set_error (Some r) ERR_SYNTAX
                                       ''Missing closing parenthesis'' P5)
                              else Some (result * sign, ds, P5)))
               else if isdigit c \<or> c = CHR ''.''
               then (case basic_parse_float (c # cs) of
                       (result, p5) \<Rightarrow> Some (result * sign, p5, P))
               else if basic_is_alpha c
               then (case basic_get_token (c # cs) P of
                       None \<Rightarrow> None
                     | Some (None, p5, P5) \<Rightarrow> None
                     | Some (Some token, p5, P5) \<Rightarrow>
                         if type token = TOK_VARIABLE
                         then (case basic_get_variable_value r (stringValue token) P5 of
                                 None \<Rightarrow> None
                               | Some (result, P6) \<Rightarrow> Some (result * sign, p5, P6))
                         else if type token = TOK_FUNCTION
                         then (if length p5 < length (c # cs)
                               then (case basic_evaluate_function r (stringValue token) p5 P5 of
                                       None \<Rightarrow> None
                                     | Some (result, p6, P6) \<Rightarrow> Some (result * sign, p6, P6))
                               else None)
                         else Some (0, p5,
                                basic_set_error (Some r) ERR_SYNTAX
                                  ''Expected variable or function'' P5))
               else Some (0, c # cs,
                      basic_set_error (Some r) ERR_SYNTAX
                        ''Expected number, variable, or expression'' P)))"
| "basic_evaluate_function r functionName p P =
     (case basic_skip_whitespace p of
        [] \<Rightarrow>
          Some (0, [], basic_set_error (Some r) ERR_SYNTAX ''Expected opening parenthesis'' P)
      | c # cs \<Rightarrow>
          if c \<noteq> CHR ''(''
          then Some (0, c # cs,
                 basic_set_error (Some r) ERR_SYNTAX ''Expected opening parenthesis'' P)
          else (case basic_evaluate_expression r cs P of
                  None \<Rightarrow> None
                | Some (argument, p2, P2) \<Rightarrow>
                    if errorCode (mem P2 r) \<noteq> ERR_NONE then Some (0, p2, P2)
                    else (case basic_skip_whitespace p2 of
                            [] \<Rightarrow>
                              Some (0, [],
                                basic_set_error (Some r) ERR_SYNTAX
                                  ''Expected closing parenthesis'' P2)
                          | d # ds \<Rightarrow>
                              if d \<noteq> CHR '')''
                              then Some (0, d # ds,
                                     basic_set_error (Some r) ERR_SYNTAX
                                       ''Expected closing parenthesis'' P2)
                              else (case call_function r functionName argument P2 of
                                      (result, P3) \<Rightarrow> Some (result, ds, P3)))))"
  by pat_completeness auto
termination
proof (relation "measures
    [\<lambda>x. case x of
        Inl (Inl (r, p, P)) \<Rightarrow> length p
      | Inl (Inr (Inl (r, left, p, P))) \<Rightarrow> length p
      | Inl (Inr (Inr (r, p, P))) \<Rightarrow> length p
      | Inr (Inl (r, left, p, P)) \<Rightarrow> length p
      | Inr (Inr (Inl (r, p, P))) \<Rightarrow> length p
      | Inr (Inr (Inr (r, f, p, P))) \<Rightarrow> length p,
     \<lambda>x. case x of
        Inl (Inl _) \<Rightarrow> 3
      | Inl (Inr (Inl _)) \<Rightarrow> 0
      | Inl (Inr (Inr _)) \<Rightarrow> 2
      | Inr (Inl _) \<Rightarrow> 0
      | Inr (Inr (Inl _)) \<Rightarrow> Suc 0
      | Inr (Inr (Inr _)) \<Rightarrow> 0]", goal_cases)
  case 1
  show ?case by simp
next
  case (2 r p P)
  show ?case by simp
next
  case (3 r p P x2 left y p1 P1)
  then show ?case by auto
next
  case (4 r left p P x2 f p1)
  then show ?case
    using length_skip_whitespace [of p]
    by (auto simp: expression_operator_def split: list.splits if_splits)
next
  case (5 r left p P x2 f p1 x2a x y p2 P2)
  then show ?case
    using length_skip_whitespace [of p]
    by (auto simp: expression_operator_def split: list.splits if_splits)
next
  case (6 r p P)
  show ?case by simp
next
  case (7 r p P x2 left y p1 P1)
  then show ?case by auto
next
  case (8 r left p P c cs)
  then show ?case using skip_whitespace_Cons [of p c cs] by auto
next
  case (9 r left p P c cs x2 x y p2 P2)
  then show ?case using skip_whitespace_Cons [of p c cs] by auto
next
  case (10 r left p P c cs)
  then show ?case using skip_whitespace_Cons [of p c cs] by auto
next
  case (11 r left p P c cs x2 right y p2 P2)
  then show ?case using skip_whitespace_Cons [of p c cs] by auto
next
  case (12 r p P sign p2 c cs)
  then show ?case
    using skip_whitespace_Cons [of p2 c cs] length_skip_sign [of "basic_skip_whitespace p" sign p2]
      length_skip_whitespace [of p]
    by auto
next
  case (13 r p P sign p2 c cs x y token p5 P5)
  then show ?case
    using skip_whitespace_Cons [of p2 c cs] length_skip_sign [of "basic_skip_whitespace p" sign p2]
      length_skip_whitespace [of p]
    by auto
next
  case (14 r functionName p P c cs)
  then show ?case using skip_whitespace_Cons [of p c cs] by auto
qed

subsection \<open>Cursors only move forwards\<close>

lemma length_parse_float_int: "parse_float_int v p = (v', p') \<Longrightarrow> length p' \<le> length p"
  by (induction v p rule: parse_float_int.induct) (auto split: if_splits)

lemma length_parse_float_frac: "parse_float_frac v f p = (v', p') \<Longrightarrow> length p' \<le> length p"
  by (induction v f p rule: parse_float_frac.induct) (auto split: if_splits)

lemma length_parse_float: "basic_parse_float p = (v, p') \<Longrightarrow> length p' \<le> length p"
  by (auto simp: basic_parse_float_def Let_def split: prod.splits list.splits if_splits
     dest!: length_parse_float_int length_parse_float_frac)

lemma length_parse_int_loop: "parse_int_loop v p = (v', p') \<Longrightarrow> length p' \<le> length p"
  by (induction v p rule: parse_int_loop.induct) (auto split: if_splits)

lemma length_after_quote:
  "length (case dropWhile Q cs of [] \<Rightarrow> [] | x # rest \<Rightarrow> rest) \<le> length cs"
  using length_dropWhile_le [of Q cs] by (auto split: list.splits)

lemma skip_whitespace_idem:
  "basic_skip_whitespace (basic_skip_whitespace p) = basic_skip_whitespace p"
  by (induction p) auto

lemma lex_token_skip: "lex_token (basic_skip_whitespace p) = lex_token p"
  by (simp add: lex_token_def skip_whitespace_idem)

lemma lex_token_quote:
  "lex_token (CHR 0x22 # cs) =
     (Some \<lparr>type = TOK_STRING,
             stringValue = take (MAX_VAR_NAME_LENGTH - 1) (takeWhile (\<lambda>x. x \<noteq> CHR 0x22) cs),
             floatValue = 0\<rparr>,
      (case dropWhile (\<lambda>x. x \<noteq> CHR 0x22) cs of [] \<Rightarrow> [] | x # rest \<Rightarrow> rest),
      (case dropWhile (\<lambda>x. x \<noteq> CHR 0x22) cs of [] \<Rightarrow> NoStore | x # rest \<Rightarrow> Kept))"
  by (cases "dropWhile (\<lambda>x. x \<noteq> CHR 0x22) cs")
     (simp_all add: lex_token_def Let_def isdigit_def del: dropWhile_eq_Nil_conv)

lemma length_lex_token:
  assumes "lex_token p = (t, p', st)"
  shows "length p' \<le> length p"
proof -
  have "length p' \<le> length (basic_skip_whitespace p)"
  proof (cases "basic_skip_whitespace p")
    case Nil
    then show ?thesis using assms by (simp add: lex_token_def)
  next
    case (Cons c cs)
    have ws: "basic_skip_whitespace (c # cs) = c # cs"
      using skip_whitespace_idem [of p] Cons by simp
    have lx: "lex_token (c # cs) = (t, p', st)"
      using assms lex_token_skip [of p] Cons by simp
    show ?thesis
    proof (cases "isdigit c \<or> (c = CHR ''.'' \<and> (case cs of [] \<Rightarrow> False | d # _ \<Rightarrow> isdigit d))")
      case True
      obtain v p1 where pf: "basic_parse_float (c # cs) = (v, p1)"
        by (cases "basic_parse_float (c # cs)")
      from lx True pf have "p' = p1" unfolding lex_token_def ws by simp
      with length_parse_float [OF pf] Cons show ?thesis by simp
    next
      case nd: False
      show ?thesis
      proof (cases "c = CHR 0x22")
        case True
        with lx
        have "p' = (case dropWhile (\<lambda>x. x \<noteq> CHR 0x22) cs of [] \<Rightarrow> [] | x # rest \<Rightarrow> rest)"
          by (simp add: lex_token_quote)
        with length_after_quote [of "\<lambda>x. x \<noteq> CHR 0x22" cs] Cons show ?thesis by simp
      next
        case nq: False
        have "p' = cs \<or> p' = tl cs \<or> p' = dropWhile basic_is_alphanumeric cs \<or> p' = c # cs"
          using lx nd nq unfolding lex_token_def ws
          by (simp split: if_splits list.splits)
        moreover have "length (tl cs) \<le> length cs" by simp
        moreover have "length (dropWhile basic_is_alphanumeric cs) \<le> length cs"
          by (rule length_dropWhile_le)
        ultimately show ?thesis using Cons by auto
      qed
    qed
  qed
  then show ?thesis using length_skip_whitespace [of p] by simp
qed

lemma alpha_facts:
  assumes "basic_is_alpha c"
  shows "\<not> isdigit c" "c \<noteq> CHR '' ''" "c \<noteq> CHR 0x09" "c \<noteq> CHR ''.''" "c \<noteq> CHR 0x22"
    "c \<noteq> CHR ''+''" "c \<noteq> CHR ''-''" "c \<noteq> CHR ''*''" "c \<noteq> CHR ''/''" "c \<noteq> CHR ''=''"
    "c \<noteq> CHR ''<''" "c \<noteq> CHR ''>''" "c \<noteq> CHR ''(''" "c \<noteq> CHR '')''" "c \<noteq> CHR '',''"
    "c \<noteq> CHR '';''" "c \<noteq> CHR '':''" "c \<noteq> CHR 0x0A"
  using assms by (auto simp: basic_is_alpha_def isdigit_def)

lemma lex_token_alpha:
  "basic_is_alpha c \<Longrightarrow>
   lex_token (c # cs) =
     (Some (identifier_token (takeWhile basic_is_alphanumeric (c # cs))),
      dropWhile basic_is_alphanumeric (c # cs), Restored)"
  by (simp add: lex_token_def alpha_facts)

lemma length_lex_token_alpha:
  assumes "lex_token (c # cs) = (t, p', st)" "basic_is_alpha c"
  shows "length p' < length (c # cs)"
  using assms length_dropWhile_le [of basic_is_alphanumeric cs]
  by (simp add: lex_token_alpha basic_is_alphanumeric_def)

lemma length_get_token:
  "basic_get_token p P = Some (t, p', P') \<Longrightarrow> length p' \<le> length p"
  by (auto simp: basic_get_token_def split: prod.splits option.splits dest: length_lex_token)

lemmas eval_induct =
  basic_evaluate_expression_expression_loop_basic_evaluate_term_term_loop_basic_evaluate_factor_basic_evaluate_function.induct

lemma length_expression_operator:
  "expression_operator p = Some (f, p') \<Longrightarrow> length p' < length p"
  by (auto simp: expression_operator_def split: list.splits if_splits)

declare basic_evaluate_expression.simps [simp del] expression_loop.simps [simp del]
  basic_evaluate_term.simps [simp del] term_loop.simps [simp del]
  basic_evaluate_factor.simps [simp del] basic_evaluate_function.simps [simp del]

lemma evaluate_cursor:
  "basic_evaluate_expression r p P = Some (v, p', P') \<Longrightarrow> length p' \<le> length p"
  "expression_loop r left p P = Some (v, p', P') \<Longrightarrow> length p' \<le> length p"
  "basic_evaluate_term r p P = Some (v, p', P') \<Longrightarrow> length p' \<le> length p"
  "term_loop r left p P = Some (v, p', P') \<Longrightarrow> length p' \<le> length p"
  "basic_evaluate_factor r p P = Some (v, p', P') \<Longrightarrow> length p' \<le> length p"
  "basic_evaluate_function r fn p P = Some (v, p', P') \<Longrightarrow> length p' \<le> length p"
proof (induction r p P and r left p P and r p P and r left p P and r p P and r fn p P
    arbitrary: v p' P' and v p' P' and v p' P' and v p' P' and v p' P' and v p' P'
    rule: eval_induct)
  case (1 r p P)
  from "1.prems" obtain left p1 P1 where
    t: "basic_evaluate_term r p P = Some (left, p1, P1)" and g: "length p1 \<le> length p" and
    l: "expression_loop r left p1 P1 = Some (v, p', P')"
    by (auto simp: basic_evaluate_expression.simps split: option.splits if_splits)
  from "1.IH"(2) [OF t refl refl g l] g show ?case by simp
next
  case (2 r left p P)
  show ?case
  proof (cases "expression_operator (basic_skip_whitespace p)")
    case None
    with "2.prems" show ?thesis
      using length_skip_whitespace [of p] by (auto simp: expression_loop.simps)
  next
    case (Some a)
    obtain f p1 where a: "a = (f, p1)" by (cases a)
    from "2.prems" Some a obtain x p2 P2 where
      t: "basic_evaluate_term r p1 P = Some (x, p2, P2)" and g: "length p2 \<le> length p1" and
      l: "expression_loop r (f left x) p2 P2 = Some (v, p', P')"
      by (auto simp: expression_loop.simps split: option.splits if_splits)
    from Some a have "length p1 < length (basic_skip_whitespace p)"
      by (simp add: length_expression_operator)
    with "2.IH"(2) [OF Some a [symmetric] t refl refl g l] g length_skip_whitespace [of p]
    show ?thesis by simp
  qed
next
  case (3 r p P)
  from "3.prems" obtain left p1 P1 where
    t: "basic_evaluate_factor r p P = Some (left, p1, P1)" and g: "length p1 \<le> length p" and
    l: "term_loop r left p1 P1 = Some (v, p', P')"
    by (auto simp: basic_evaluate_term.simps split: option.splits if_splits)
  from "3.IH"(2) [OF t refl refl g l] g show ?case by simp
next
  case (4 r left p P)
  show ?case
  proof (cases "basic_skip_whitespace p")
    case Nil
    with "4.prems" show ?thesis by (auto simp: term_loop.simps)
  next
    case (Cons c cs)
    have le: "length cs < length p" using Cons by (rule skip_whitespace_Cons)
    consider (mul) "c = CHR ''*''" | (div) "c \<noteq> CHR ''*''" "c = CHR ''/''"
      | (other) "c \<noteq> CHR ''*''" "c \<noteq> CHR ''/''" by blast
    then show ?thesis
    proof cases
      case mul
      from "4.prems" Cons mul obtain x p2 P2 where
        t: "basic_evaluate_factor r cs P = Some (x, p2, P2)" and g: "length p2 \<le> length cs" and
        l: "term_loop r (left * x) p2 P2 = Some (v, p', P')"
        by (auto simp: term_loop.simps split: option.splits if_splits)
      from "4.IH"(2) [OF Cons mul t refl refl g l] g le show ?thesis by simp
    next
      case div
      from "4.prems" Cons div obtain right p2 P2 where
        t: "basic_evaluate_factor r cs P = Some (right, p2, P2)" and
        d: "(right = 0 \<and> p' = p2) \<or>
            (right \<noteq> 0 \<and> length p2 \<le> length cs \<and>
             term_loop r (left / right) p2 P2 = Some (v, p', P'))"
        by (auto simp: term_loop.simps split: option.splits if_splits)
      from "4.IH"(3) [OF Cons div t] have g: "length p2 \<le> length cs" .
      from d show ?thesis
      proof
        assume "right = 0 \<and> p' = p2"
        with g le show ?thesis by simp
      next
        assume h: "right \<noteq> 0 \<and> length p2 \<le> length cs \<and>
             term_loop r (left / right) p2 P2 = Some (v, p', P')"
        from "4.IH"(4) [OF Cons div t refl refl] h g le show ?thesis by fastforce
      qed
    next
      case other
      with "4.prems" Cons length_skip_whitespace [of p] show ?thesis
        by (auto simp: term_loop.simps)
    qed
  qed
next
  case (5 r p P)
  obtain sign p2 where s: "skip_sign (basic_skip_whitespace p) = (sign, p2)"
    by (cases "skip_sign (basic_skip_whitespace p)")
  have le2: "length p2 \<le> length p"
    using length_skip_sign [OF s] length_skip_whitespace [of p] by simp
  show ?case
  proof (cases "basic_skip_whitespace p2")
    case Nil
    with "5.prems" s show ?thesis by (auto simp: basic_evaluate_factor.simps)
  next
    case (Cons c cs)
    have le: "length (c # cs) \<le> length p"
      using length_skip_whitespace [of p2] le2 Cons by simp
    consider (paren) "c = CHR ''(''"
      | (num) "c \<noteq> CHR ''(''" "isdigit c \<or> c = CHR ''.''"
      | (alpha) "c \<noteq> CHR ''(''" "\<not> (isdigit c \<or> c = CHR ''.'')" "basic_is_alpha c"
      | (other) "c \<noteq> CHR ''(''" "\<not> (isdigit c \<or> c = CHR ''.'')" "\<not> basic_is_alpha c"
      by blast
    then show ?thesis
    proof cases
      case paren
      from "5.prems" s Cons paren obtain result p5 P5 where
        e: "basic_evaluate_expression r cs P = Some (result, p5, P5)" and
        d: "length p' \<le> length p5"
        by (auto simp: basic_evaluate_factor.simps split: option.splits if_splits list.splits)
      from "5.IH"(1) [OF s [symmetric] Cons paren e] d le show ?thesis by simp
    next
      case num
      with "5.prems" s Cons le show ?thesis
        by (auto simp: basic_evaluate_factor.simps split: prod.splits
            dest!: length_parse_float)
    next
      case alpha
      from "5.prems" s Cons alpha obtain t p5 P5 where
        tk: "basic_get_token (c # cs) P = Some (t, p5, P5)"
        by (cases "basic_get_token (c # cs) P") (auto simp: basic_evaluate_factor.simps)
      have l5: "length p5 \<le> length (c # cs)" using tk by (rule length_get_token)
      from "5.prems" s Cons alpha tk obtain token where t: "t = Some token"
        by (cases t) (auto simp: basic_evaluate_factor.simps)
      show ?thesis
      proof (cases "type token = TOK_FUNCTION")
        case True
        from "5.prems" s Cons alpha tk t True obtain result P6 where
          g: "length p5 < length (c # cs)" and
          f: "basic_evaluate_function r (stringValue token) p5 P5 = Some (result, p', P6)"
          by (auto simp: basic_evaluate_factor.simps split: option.splits if_splits)
        have nv: "type token \<noteq> TOK_VARIABLE" using True by simp
        from "5.IH"(2) [OF s [symmetric] Cons alpha(1,2,3) tk refl t refl nv True g f]
          g le show ?thesis by simp
      next
        case False
        with "5.prems" s Cons alpha tk t l5 le show ?thesis
          by (auto simp: basic_evaluate_factor.simps split: option.splits if_splits)
      qed
    next
      case other
      with "5.prems" s Cons le show ?thesis
        by (auto simp: basic_evaluate_factor.simps)
    qed
  qed
next
  case (6 r functionName p P)
  show ?case
  proof (cases "basic_skip_whitespace p")
    case Nil
    with "6.prems" show ?thesis by (auto simp: basic_evaluate_function.simps)
  next
    case (Cons c cs)
    have le: "length cs < length p" using Cons by (rule skip_whitespace_Cons)
    show ?thesis
    proof (cases "c = CHR ''(''")
      case False
      with "6.prems" Cons length_skip_whitespace [of p] show ?thesis
        by (auto simp: basic_evaluate_function.simps)
    next
      case True
      from "6.prems" Cons True obtain argument p2 P2 where
        e: "basic_evaluate_expression r cs P = Some (argument, p2, P2)"
        by (cases "basic_evaluate_expression r cs P")
           (auto simp: basic_evaluate_function.simps)
      have d: "length p' \<le> length p2"
      proof (cases "basic_skip_whitespace p2")
        case Nil
        with "6.prems" Cons True e show ?thesis
          by (auto simp: basic_evaluate_function.simps split: if_splits)
      next
        case (Cons d ds)
        with "6.prems" \<open>basic_skip_whitespace p = c # cs\<close> True e
        have "p' = p2 \<or> p' = d # ds \<or> p' = ds"
          by (auto simp: basic_evaluate_function.simps split: if_splits prod.splits)
        with length_skip_whitespace [of p2] Cons show ?thesis by auto
      qed
      from "6.IH" [OF Cons _ e] True d le show ?thesis by simp
    qed
  qed
qed

text \<open>The equations of the evaluator as the C code reads, without the tests on the cursor.\<close>

lemma basic_evaluate_expression_eq:
  "basic_evaluate_expression r p P =
     (case basic_evaluate_term r p P of
        None \<Rightarrow> None
      | Some (left, p1, P1) \<Rightarrow> expression_loop r left p1 P1)"
  by (auto simp: basic_evaluate_expression.simps split: option.splits dest: evaluate_cursor(3))

lemma expression_loop_eq:
  "expression_loop r left p P =
     (case expression_operator (basic_skip_whitespace p) of
        None \<Rightarrow> Some (left, basic_skip_whitespace p, P)
      | Some (f, p1) \<Rightarrow>
          (case basic_evaluate_term r p1 P of
             None \<Rightarrow> None
           | Some (x, p2, P2) \<Rightarrow> expression_loop r (f left x) p2 P2))"
  by (subst expression_loop.simps)
     (auto split: option.splits dest: evaluate_cursor(3))

lemma basic_evaluate_term_eq:
  "basic_evaluate_term r p P =
     (case basic_evaluate_factor r p P of
        None \<Rightarrow> None
      | Some (left, p1, P1) \<Rightarrow> term_loop r left p1 P1)"
  by (auto simp: basic_evaluate_term.simps split: option.splits dest: evaluate_cursor(5))

lemma term_loop_eq:
  "term_loop r left p P =
     (case basic_skip_whitespace p of
        [] \<Rightarrow> Some (left, [], P)
      | c # cs \<Rightarrow>
          if c = CHR ''*''
          then (case basic_evaluate_factor r cs P of
                  None \<Rightarrow> None
                | Some (x, p2, P2) \<Rightarrow> term_loop r (left * x) p2 P2)
          else if c = CHR ''/''
          then (case basic_evaluate_factor r cs P of
                  None \<Rightarrow> None
                | Some (right, p2, P2) \<Rightarrow>
                    if right = 0
                    then Some (0, p2,
                           basic_set_error (Some r) ERR_DIVISION_BY_ZERO ''Division by zero'' P2)
                    else term_loop r (left / right) p2 P2)
          else Some (left, c # cs, P))"
  by (subst term_loop.simps)
     (auto split: option.splits list.splits dest: evaluate_cursor(5))

lemma basic_evaluate_factor_function:
  "basic_is_alpha c \<Longrightarrow> basic_get_token (c # cs) P = Some (Some token, p5, P5) \<Longrightarrow>
   length p5 < length (c # cs)"
  by (auto simp: basic_get_token_def split: prod.splits option.splits
      dest: length_lex_token_alpha)


subsection \<open>Statement handlers\<close>

text \<open>
  A handler returns the C return value (1 for success, 0 for failure) and the process,
  or \<^term>\<open>None\<close> when it does not return.  Helpers shared by several handlers:
  \<open>read_name\<close> is the loop that copies a name in upper case into
  \<^verbatim>\<open>varName[MAX_VAR_NAME_LENGTH]\<close> (it moves the cursor over the whole name and keeps
  the first 31 characters); \<open>skip_comma\<close> is \<^verbatim>\<open>if (**linePtr == ',') (*linePtr)++\<close>;
  \<open>quoted_text\<close> and \<open>after_quote\<close> are the characters up to the closing quote and the
  cursor behind it.
\<close>

definition read_name :: "string \<Rightarrow> string \<times> string" where
  "read_name p =
     (map toupper (take (MAX_VAR_NAME_LENGTH - 1) (takeWhile basic_is_alphanumeric p)),
      dropWhile basic_is_alphanumeric p)"

definition skip_comma :: "string \<Rightarrow> string" where
  "skip_comma p = (case p of [] \<Rightarrow> [] | c # cs \<Rightarrow> if c = CHR '','' then cs else c # cs)"

definition quoted_text :: "string \<Rightarrow> string" where
  "quoted_text cs = takeWhile (\<lambda>x. x \<noteq> CHR 0x22) cs"

definition after_quote :: "string \<Rightarrow> string" where
  "after_quote cs = (case dropWhile (\<lambda>x. x \<noteq> CHR 0x22) cs of [] \<Rightarrow> [] | q # rest \<Rightarrow> rest)"

definition print_chars :: "string \<Rightarrow> Process \<Rightarrow> Process" where
  "print_chars str P = foldl (\<lambda>Q c. basic_print_char c Q) P str"

definition statement_end :: "char \<Rightarrow> bool" where
  \<comment> \<open>\<^verbatim>\<open>**linePtr == '\n' || **linePtr == ':'\<close> (the NUL is the empty cursor)\<close>
  "statement_end c = (c = CHR 0x0A \<or> c = CHR '':'')"

text \<open>\<^verbatim>\<open>basic_handle_print\<close>: the loop, with the local \<^verbatim>\<open>newline\<close>.\<close>

partial_function (option) print_loop ::
  "ref \<Rightarrow> int \<Rightarrow> string \<Rightarrow> Process \<Rightarrow> (int \<times> Process) option" where
  "print_loop r newline p P =
     (case basic_skip_whitespace p of
        [] \<Rightarrow> Some (1, if newline \<noteq> 0 then basic_print_newline P else P)
      | c # cs \<Rightarrow>
          if statement_end c
          then Some (1, if newline \<noteq> 0 then basic_print_newline P else P)
          else if c = CHR '',''
          then print_loop r newline cs (basic_print_string ''     '' P)
          else if c = CHR '';''
          then print_loop r 0 cs P
          else if c = CHR 0x22
          then print_loop r newline (after_quote cs) (print_chars (quoted_text cs) P)
          else (case basic_evaluate_expression r (c # cs) P of
                  None \<Rightarrow> None
                | Some (v, p1, P1) \<Rightarrow>
                    if errorCode (mem P1 r) \<noteq> ERR_NONE then Some (0, P1)
                    else print_loop r newline p1 (printf_6f v P1)))"

definition basic_handle_print :: "ref \<Rightarrow> string \<Rightarrow> Process \<Rightarrow> (int \<times> Process) option" where
  "basic_handle_print r p P = print_loop r 1 p P"

text \<open>
  \<^verbatim>\<open>basic_handle_input\<close>: the loop, with the local \<^verbatim>\<open>inputBuffer\<close>, which is not
  initialised: at the end of the input the value of a variable is read from what the
  buffer holds, from the line before or from the start.  An item that is neither a
  prompt nor a name nor a comma moves nothing, so the loop never ends on it.
\<close>

partial_function (option) input_loop ::
  "ref \<Rightarrow> string \<Rightarrow> string \<Rightarrow> Process \<Rightarrow> (int \<times> Process) option" where
  "input_loop r buffer p P =
     (case basic_skip_whitespace p of
        [] \<Rightarrow> Some (1, P)
      | c # cs \<Rightarrow>
          if statement_end c then Some (1, P)
          else if c = CHR 0x22
          then input_loop r buffer (skip_comma (after_quote cs))
                 (basic_print_string ''? '' (print_chars (quoted_text cs) P))
          else if basic_is_alpha c
          then (case read_name (c # cs) of
                  (varName, p1) \<Rightarrow>
                    (case basic_input_string buffer 256 (basic_print_string ''? '' P) of
                       (line, P2) \<Rightarrow>
                         input_loop r line (skip_comma p1)
                           (basic_set_variable_value r varName (basic_val line) P2)))
          else input_loop r buffer (skip_comma (c # cs)) P)"

definition basic_handle_input :: "ref \<Rightarrow> string \<Rightarrow> Process \<Rightarrow> (int \<times> Process) option" where
  "basic_handle_input r p P = input_loop r (uninitialised P) p P"

definition basic_handle_let :: "ref \<Rightarrow> string \<Rightarrow> Process \<Rightarrow> (int \<times> Process) option" where
  "basic_handle_let r p P =
     (case basic_skip_whitespace p of
        [] \<Rightarrow> Some (0, basic_set_error (Some r) ERR_SYNTAX ''Expected variable name'' P)
      | c # cs \<Rightarrow>
          if basic_is_alpha c
          then (case read_name (c # cs) of
                  (varName, p1) \<Rightarrow>
                    (case basic_skip_whitespace p1 of
                       [] \<Rightarrow>
                         Some (0, basic_set_error (Some r) ERR_SYNTAX ''Expected equals sign'' P)
                     | d # ds \<Rightarrow>
                         if d = CHR ''=''
                         then (case basic_evaluate_expression r ds P of
                                 None \<Rightarrow> None
                               | Some (v, p2, P2) \<Rightarrow>
                                   if errorCode (mem P2 r) \<noteq> ERR_NONE then Some (0, P2)
                                   else Some (1, basic_set_variable_value r varName v P2))
                         else Some (0,
                                basic_set_error (Some r) ERR_SYNTAX ''Expected equals sign'' P)))
          else Some (0, basic_set_error (Some r) ERR_SYNTAX ''Expected variable name'' P))"

text \<open>
  \<^verbatim>\<open>basic_handle_for\<close> in three parts.  \<open>for_step\<close> is the optional STEP clause.
  \<open>for_header\<close> is the function up to and including that clause: the variable, the
  equals sign, the initial value, \<^verbatim>\<open>TO\<close>, the final value and the step; it gives
  \<^term>\<open>Inl\<close> where the function returns 0, and else the name and the initial value.
  \<open>for_push\<close> is the end of the function: the assignment, the overflow test and the
  push.  The token behind the initial value is read through the pointer
  \<^verbatim>\<open>basic_get_token\<close> returns without a test for NULL, so an unrecognised character
  there is a fault.
\<close>

definition for_push :: "ref \<Rightarrow> string \<Rightarrow> real \<Rightarrow> Process \<Rightarrow> (int \<times> Process) option" where
  "for_push r varName initial P =
     (let P1 = basic_set_variable_value r varName initial P
      in if forStackPtr (mem P1 r) \<ge> 32
         then Some (0, basic_set_error (Some r) ERR_STACK_OVERFLOW ''FOR loop stack overflow'' P1)
         else if forStackPtr (mem P1 r) < 0 then None
         else Some (1, upd r (\<lambda>s. s\<lparr>forStack :=
                                        (forStack s)(nat (forStackPtr s) := currentLineNumber s),
                                      forStackPtr := forStackPtr s + 1\<rparr>) P1))"

definition for_step ::
  "ref \<Rightarrow> string \<Rightarrow> Process \<Rightarrow> (Process + real \<times> string \<times> Process) option" where
  \<comment> \<open>\<^term>\<open>Inl\<close>: the handler returns 0\<close>
  "for_step r p P =
     (case basic_skip_whitespace p of
        [] \<Rightarrow> Some (Inr (1, [], P))
      | c # cs \<Rightarrow>
          if basic_is_alpha c
          then (case basic_get_token (c # cs) P of
                  None \<Rightarrow> None
                | Some (None, p1, P1) \<Rightarrow> None
                | Some (Some token, p1, P1) \<Rightarrow>
                    if type token = TOK_STEP
                    then (case basic_evaluate_expression r p1 P1 of
                            None \<Rightarrow> None
                          | Some (step, p2, P2) \<Rightarrow>
                              if errorCode (mem P2 r) \<noteq> ERR_NONE then Some (Inl P2)
                              else Some (Inr (step, p2, P2)))
                    else Some (Inr (1, p1, P1)))
          else Some (Inr (1, c # cs, P)))"

definition for_header ::
  "ref \<Rightarrow> string \<Rightarrow> Process \<Rightarrow> (Process + string \<times> real \<times> Process) option" where
  "for_header r p P =
     (case basic_skip_whitespace p of
        [] \<Rightarrow> Some (Inl (basic_set_error (Some r) ERR_SYNTAX ''Expected variable name'' P))
      | c # cs \<Rightarrow>
          if basic_is_alpha c
          then (case read_name (c # cs) of
                  (varName, p1) \<Rightarrow>
                    (case basic_skip_whitespace p1 of
                       [] \<Rightarrow>
                         Some (Inl (basic_set_error (Some r) ERR_SYNTAX ''Expected equals sign'' P))
                     | d # ds \<Rightarrow>
                         if d = CHR ''=''
                         then (case basic_evaluate_expression r ds P of
                                 None \<Rightarrow> None
                               | Some (initial, p2, P2) \<Rightarrow>
                                   if errorCode (mem P2 r) \<noteq> ERR_NONE then Some (Inl P2)
                                   else (case basic_get_token p2 P2 of
                                           None \<Rightarrow> None
                                         | Some (None, p3, P3) \<Rightarrow> None
                                         | Some (Some token, p3, P3) \<Rightarrow>
                                             if type token = TOK_TO
                                             then (case basic_evaluate_expression r p3 P3 of
                                                     None \<Rightarrow> None
                                                   | Some (final, p4, P4) \<Rightarrow>
                                                       if errorCode (mem P4 r) \<noteq> ERR_NONE
                                                       then Some (Inl P4)
                                                       else (case for_step r p4 P4 of
                                                               None \<Rightarrow> None
                                                             | Some (Inl P5) \<Rightarrow> Some (Inl P5)
                                                             | Some (Inr (step, p5, P5)) \<Rightarrow>
                                                                 Some (Inr (varName, initial, P5))))
                                             else Some (Inl
                                                    (basic_set_error (Some r) ERR_SYNTAX
                                                      ''Expected TO'' P3))))
                         else Some (Inl
                                (basic_set_error (Some r) ERR_SYNTAX ''Expected equals sign'' P))))
          else Some (Inl (basic_set_error (Some r) ERR_SYNTAX ''Expected variable name'' P)))"

definition basic_handle_for :: "ref \<Rightarrow> string \<Rightarrow> Process \<Rightarrow> (int \<times> Process) option" where
  "basic_handle_for r p P =
     (case for_header r p P of
        None \<Rightarrow> None
      | Some (Inl P1) \<Rightarrow> Some (0, P1)
      | Some (Inr (varName, initial, P5)) \<Rightarrow> for_push r varName initial P5)"

text \<open>
  \<^verbatim>\<open>basic_handle_next\<close> reads the optional variable name (and does nothing with it),
  then pops the FOR stack.
\<close>

definition basic_handle_next :: "ref \<Rightarrow> string \<Rightarrow> Process \<Rightarrow> (int \<times> Process) option" where
  "basic_handle_next r p P =
     (if forStackPtr (mem P r) \<le> 0
      then Some (0, basic_set_error (Some r) ERR_NEXT_WITHOUT_FOR ''NEXT without FOR'' P)
      else Some (1, upd r (\<lambda>s. s\<lparr>forStackPtr := forStackPtr s - 1\<rparr>) P))"

subsection \<open>The program table and the jumps\<close>

fun findLine_loop :: "ProgramLine list \<Rightarrow> int \<Rightarrow> ProgramLine option" where
  "findLine_loop [] n = None"
| "findLine_loop (current # rest) n =
     (if lineNumber current = n then Some current
      else if lineNumber current > n then None
      else findLine_loop rest n)"

definition findLine :: "BASICState \<Rightarrow> int \<Rightarrow> ProgramLine option" where
  "findLine s n = findLine_loop (programLines s) n"

text \<open>
  \<^verbatim>\<open>basic_handle_goto_line\<close> looks the target up and does nothing else: the run loop
  is not told where to go on.
\<close>

definition basic_handle_goto_line :: "ref \<Rightarrow> int \<Rightarrow> Process \<Rightarrow> int \<times> Process" where
  "basic_handle_goto_line r n P =
     (case findLine (mem P r) n of
        None \<Rightarrow> (0, basic_set_error (Some r) ERR_LINE_NOT_FOUND ''Line not found'' P)
      | Some targetLine \<Rightarrow> (1, P))"

text \<open>
  \<^verbatim>\<open>basic_handle_gosub\<close> and \<^verbatim>\<open>basic_handle_goto\<close> read the line number with
  \<^verbatim>\<open>basic_parse_int\<close> at the cursor as it stands behind the keyword (white space is
  not skipped).  A push at a negative stack pointer writes outside the array (a fault),
  and so does the read of \<^verbatim>\<open>basic_handle_return\<close> at a stack pointer above 32.
\<close>

definition basic_handle_gosub :: "ref \<Rightarrow> string \<Rightarrow> Process \<Rightarrow> (int \<times> Process) option" where
  "basic_handle_gosub r p P =
     (case basic_parse_int p of
        (n, p1) \<Rightarrow>
          if errorCode (mem P r) \<noteq> ERR_NONE then Some (0, P)
          else if gosubStackPtr (mem P r) \<ge> 32
          then Some (0, basic_set_error (Some r) ERR_STACK_OVERFLOW ''GOSUB stack overflow'' P)
          else if gosubStackPtr (mem P r) < 0 then None
          else Some (basic_handle_goto_line r n
                 (upd r (\<lambda>s. s\<lparr>gosubStack :=
                                  (gosubStack s)(nat (gosubStackPtr s) := currentLineNumber s),
                                gosubStackPtr := gosubStackPtr s + 1\<rparr>) P)))"

definition basic_handle_return :: "ref \<Rightarrow> string \<Rightarrow> Process \<Rightarrow> (int \<times> Process) option" where
  "basic_handle_return r p P =
     (if gosubStackPtr (mem P r) \<le> 0
      then Some (0, basic_set_error (Some r) ERR_SYNTAX ''RETURN without GOSUB'' P)
      else if gosubStackPtr (mem P r) > 32 then None
      else (let returnLine = gosubStack (mem P r) (nat (gosubStackPtr (mem P r) - 1))
            in Some (basic_handle_goto_line r returnLine
                 (upd r (\<lambda>s. s\<lparr>gosubStackPtr := gosubStackPtr s - 1\<rparr>) P))))"

definition basic_handle_goto :: "ref \<Rightarrow> string \<Rightarrow> Process \<Rightarrow> (int \<times> Process) option" where
  "basic_handle_goto r p P =
     (case basic_parse_int p of
        (n, p1) \<Rightarrow>
          if errorCode (mem P r) \<noteq> ERR_NONE then Some (0, P)
          else Some (basic_handle_goto_line r n P))"

subsection \<open>READ, DATA, DIM, END, STOP, REM\<close>

definition basic_read_data_value :: "ref \<Rightarrow> Process \<Rightarrow> real" where
  "basic_read_data_value r P = 0"

partial_function (option) read_loop ::
  "ref \<Rightarrow> string \<Rightarrow> Process \<Rightarrow> (int \<times> Process) option" where
  "read_loop r p P =
     (case basic_skip_whitespace p of
        [] \<Rightarrow> Some (1, P)
      | c # cs \<Rightarrow>
          if statement_end c then Some (1, P)
          else if basic_is_alpha c
          then (case read_name (c # cs) of
                  (varName, p1) \<Rightarrow>
                    if errorCode (mem P r) \<noteq> ERR_NONE then Some (0, P)
                    else read_loop r (skip_comma p1)
                           (basic_set_variable_value r varName (basic_read_data_value r P) P))
          else read_loop r (skip_comma (c # cs)) P)"

definition basic_handle_read :: "ref \<Rightarrow> string \<Rightarrow> Process \<Rightarrow> (int \<times> Process) option" where
  "basic_handle_read r p P = read_loop r p P"

definition basic_handle_data :: "ref \<Rightarrow> string \<Rightarrow> Process \<Rightarrow> (int \<times> Process) option" where
  "basic_handle_data r p P = Some (1, P)"

text \<open>
  \<^verbatim>\<open>basic_handle_dim\<close>: \<open>dim_sizes\<close> is the inner loop over the dimensions
  (\<^term>\<open>Inl\<close> when the handler returns 0 from inside it), \<open>dim_loop\<close> the outer loop
  over the declarations.
\<close>

partial_function (option) dim_sizes ::
  "ref \<Rightarrow> int list \<Rightarrow> string \<Rightarrow> Process \<Rightarrow> (Process + int list \<times> string) option" where
  "dim_sizes r dims p P =
     (case p of
        [] \<Rightarrow> Some (Inr (dims, p))
      | c # cs \<Rightarrow>
          if c = CHR '')'' then Some (Inr (dims, p))
          else (case basic_parse_int p of
                  (n, p1) \<Rightarrow>
                    if errorCode (mem P r) \<noteq> ERR_NONE then Some (Inl P)
                    else if length (dims @ [n]) \<ge> MAX_ARRAY_DIMENSIONS
                    then Some (Inl (basic_set_error (Some r) ERR_SYNTAX ''Too many dimensions'' P))
                    else dim_sizes r (dims @ [n]) (skip_comma (basic_skip_whitespace p1)) P))"

partial_function (option) dim_loop ::
  "ref \<Rightarrow> string \<Rightarrow> Process \<Rightarrow> (int \<times> Process) option" where
  "dim_loop r p P =
     (case basic_skip_whitespace p of
        [] \<Rightarrow> Some (1, P)
      | c # cs \<Rightarrow>
          if statement_end c then Some (1, P)
          else if basic_is_alpha c
          then (case read_name (c # cs) of
                  (varName, p1) \<Rightarrow>
                    (case basic_skip_whitespace p1 of
                       [] \<Rightarrow>
                         Some (0, basic_set_error (Some r) ERR_SYNTAX
                                    ''Expected opening parenthesis'' P)
                     | d # ds \<Rightarrow>
                         if d = CHR ''(''
                         then (case dim_sizes r [] ds P of
                                 None \<Rightarrow> None
                               | Some (Inl P1) \<Rightarrow> Some (0, P1)
                               | Some (Inr (dims, p2)) \<Rightarrow>
                                   (case basic_create_array r varName dims (length dims) P of
                                      (ok, P1) \<Rightarrow>
                                        if ok = 0 then Some (0, P1)
                                        else dim_loop r
                                               (skip_comma
                                                  (case p2 of
                                                     [] \<Rightarrow> []
                                                   | e # es \<Rightarrow> if e = CHR '')'' then es else e # es))
                                               P1))
                         else Some (0, basic_set_error (Some r) ERR_SYNTAX
                                         ''Expected opening parenthesis'' P)))
          else dim_loop r (skip_comma (c # cs)) P)"

definition basic_handle_dim :: "ref \<Rightarrow> string \<Rightarrow> Process \<Rightarrow> (int \<times> Process) option" where
  "basic_handle_dim r p P = dim_loop r p P"

definition basic_handle_end :: "ref \<Rightarrow> string \<Rightarrow> Process \<Rightarrow> (int \<times> Process) option" where
  "basic_handle_end r p P = Some (1, upd r (\<lambda>s. s\<lparr>running := 0\<rparr>) P)"

definition basic_handle_stop :: "ref \<Rightarrow> string \<Rightarrow> Process \<Rightarrow> (int \<times> Process) option" where
  "basic_handle_stop r p P = Some (1, upd r (\<lambda>s. s\<lparr>running := 0\<rparr>) P)"

definition basic_handle_rem :: "ref \<Rightarrow> string \<Rightarrow> Process \<Rightarrow> (int \<times> Process) option" where
  "basic_handle_rem r p P = Some (1, P)"

subsection \<open>The statement executor\<close>

lemma lex_token_IF:
  assumes "lex_token (c # cs) = (Some t, p', st)" and "type t = TOK_IF"
    and "basic_skip_whitespace p = c # cs"
  shows "length p' < length p"
proof (cases "basic_is_alpha c")
  case True
  from length_lex_token_alpha [OF assms(1) True] length_skip_whitespace [of p] assms(3)
  show ?thesis by simp
next
  case False
  have ws: "basic_skip_whitespace (c # cs) = c # cs"
    using skip_whitespace_idem [of p] assms(3) by simp
  have "type t \<noteq> TOK_IF"
  proof (cases "isdigit c \<or> (c = CHR ''.'' \<and> (case cs of [] \<Rightarrow> False | d # _ \<Rightarrow> isdigit d))")
    case True
    with assms(1) ws show ?thesis
      by (auto simp: lex_token_def split: prod.splits)
  next
    case nd: False
    show ?thesis
    proof (cases "c = CHR 0x22")
      case True
      with assms(1) show ?thesis by (auto simp: lex_token_quote)
    next
      case nq: False
      from assms(1) have "lex_token (c # cs) = (Some t, p', st)" .
      then show ?thesis
        unfolding lex_token_def ws using nd nq False
        by (simp add: mk_token_def split: if_splits list.splits) auto
    qed
  qed
  with assms(2) show ?thesis by simp
qed

text \<open>
  \<^verbatim>\<open>executeStatement\<close> and \<^verbatim>\<open>basic_handle_if\<close> call each other.  For a variable at
  the start of a statement the cursor is moved back by the length of the token text
  (at most 31 characters, also for a longer name) and the statement is handled as a
  LET.  \<^verbatim>\<open>basic_handle_if\<close> reads the token behind the condition through the pointer
  \<^verbatim>\<open>basic_get_token\<close> returns without a test for NULL (a fault on an unrecognised
  character).
\<close>

function
  executeStatement :: "ref \<Rightarrow> string \<Rightarrow> Process \<Rightarrow> (int \<times> Process) option" and
  basic_handle_if :: "ref \<Rightarrow> string \<Rightarrow> Process \<Rightarrow> (int \<times> Process) option"
where
  "executeStatement r p P =
     (case basic_skip_whitespace p of
        [] \<Rightarrow> Some (1, P)
      | c # cs \<Rightarrow>
          (case basic_get_token (c # cs) P of
             None \<Rightarrow> None
           | Some (None, p1, P1) \<Rightarrow>
               Some (0, basic_set_error (Some r) ERR_SYNTAX ''Invalid token'' P1)
           | Some (Some token, p1, P1) \<Rightarrow>
               if type token = TOK_PRINT then basic_handle_print r p1 P1
               else if type token = TOK_INPUT then basic_handle_input r p1 P1
               else if type token = TOK_LET then basic_handle_let r p1 P1
               else if type token = TOK_IF then basic_handle_if r p1 P1
               else if type token = TOK_FOR then basic_handle_for r p1 P1
               else if type token = TOK_NEXT then basic_handle_next r p1 P1
               else if type token = TOK_GOSUB then basic_handle_gosub r p1 P1
               else if type token = TOK_RETURN then basic_handle_return r p1 P1
               else if type token = TOK_GOTO then basic_handle_goto r p1 P1
               else if type token = TOK_READ then basic_handle_read r p1 P1
               else if type token = TOK_DATA then basic_handle_data r p1 P1
               else if type token = TOK_DIM then basic_handle_dim r p1 P1
               else if type token = TOK_END then basic_handle_end r p1 P1
               else if type token = TOK_STOP then basic_handle_stop r p1 P1
               else if type token = TOK_REM then basic_handle_rem r p1 P1
               else if type token = TOK_VARIABLE
               then basic_handle_let r
                      (drop (length (c # cs) - length p1 - length (stringValue token)) (c # cs)) P1
               else Some (0, basic_set_error (Some r) ERR_SYNTAX ''Unrecognized statement'' P1)))"
| "basic_handle_if r p P =
     (case basic_evaluate_expression r p P of
        None \<Rightarrow> None
      | Some (condition, p1, P1) \<Rightarrow>
          if errorCode (mem P1 r) \<noteq> ERR_NONE then Some (0, P1)
          else (case basic_skip_whitespace p1 of
                  [] \<Rightarrow> Some (0, basic_set_error (Some r) ERR_SYNTAX ''Expected THEN'' P1)
                | c # cs \<Rightarrow>
                    (case basic_get_token (c # cs) P1 of
                       None \<Rightarrow> None
                     | Some (None, p2, P2) \<Rightarrow> None
                     | Some (Some token, p2, P2) \<Rightarrow>
                         if type token \<noteq> TOK_THEN
                         then Some (0, basic_set_error (Some r) ERR_SYNTAX ''Expected THEN'' P2)
                         else if condition \<noteq> 0 then executeStatement r p2 P2
                         else Some (1, P2))))"
  by pat_completeness auto
termination
proof (relation "measure (\<lambda>x. case x of
          Inl (r, p, P) \<Rightarrow> 2 * length p + 1
        | Inr (r, p, P) \<Rightarrow> 2 * length p + 2)", goal_cases)
  case 1
  show ?case by simp
next
  case (2 r p P c cs tk x y token p1 P1)
  obtain st where "lex_token (c # cs) = (Some token, p1, st)"
    using 2(2,3,4,5) by (auto simp: basic_get_token_def split: prod.splits option.splits)
  from lex_token_IF [OF this _ 2(1)] 2 show ?case by auto
next
  case (3 r p P x2 condition y p1 P1 c cs tk x ya token p2 P2)
  have a: "length p1 \<le> length p" using 3(1,2,3) evaluate_cursor(1) [of r p P condition p1 P1] by simp
  have b: "length (c # cs) \<le> length p1" using 3(5) length_skip_whitespace [of p1] by simp
  have c: "length p2 \<le> length (c # cs)"
    using 3(6,7,8,9) length_get_token [of "c # cs" P1 "Some token" p2 P2] by simp
  from a b c 3 show ?case by auto
qed

declare executeStatement.simps [simp del] basic_handle_if.simps [simp del]

subsection \<open>The program table: insertion\<close>

text \<open>
  \<^verbatim>\<open>addLine\<close> links a new node into the list.  \<open>link_line\<close> is what its pointer
  assignments do to the list of lines, read in the order of the \<^verbatim>\<open>next\<close> pointers.
  The search loop stops at the first node whose number is not smaller than the new one:
  \<^item> \<^verbatim>\<open>previous\<close> ends the lines with a smaller number and \<^verbatim>\<open>current\<close> starts the
    rest; the new node is linked between them;
  \<^item> when \<^verbatim>\<open>current\<close> has the new line's number, "remove old line" then sets
    \<^verbatim>\<open>previous->next = current->next\<close>.  This unlinks \<^verbatim>\<open>current\<close> and, with it, the
    new node that was linked in front of it; with no \<^verbatim>\<open>previous\<close> (the line is the
    first of the program) the assignment goes through a NULL pointer, which is a fault.
\<close>

definition link_line :: "ProgramLine list \<Rightarrow> ProgramLine \<Rightarrow> ProgramLine list option" where
  "link_line lines newLine =
     (let before = takeWhile (\<lambda>l. lineNumber l < lineNumber newLine) lines
      in case dropWhile (\<lambda>l. lineNumber l < lineNumber newLine) lines of
           [] \<Rightarrow> Some (before @ [newLine])
         | current # rest \<Rightarrow>
             if lineNumber current = lineNumber newLine
             then (if before = [] then None else Some (before @ rest))
             else Some (before @ newLine # current # rest))"

definition addLine :: "ref \<Rightarrow> int \<Rightarrow> string \<Rightarrow> Process \<Rightarrow> (int \<times> Process) option" where
  "addLine r n text P =
     (if programSize (mem P r) + int (length text) + 100 > MAX_PROGRAM_SIZE
      then Some (0, basic_set_error (Some r) ERR_PROGRAM_TOO_LARGE ''Program too large'' P)
      else
        (case basic_malloc P of
           (ok1, P1) \<Rightarrow>
             if ok1
             then (case basic_malloc P1 of
                     (ok2, P2) \<Rightarrow>
                       if ok2
                       then (case link_line (programLines (mem P2 r))
                                    \<lparr>lineNumber = n, lineText = text\<rparr> of
                               None \<Rightarrow> None
                             | Some ls \<Rightarrow>
                                 Some (1, upd r (\<lambda>s. s\<lparr>programLines := ls,
                                      programSize := programSize s + int (length text) + 100\<rparr>) P2))
                       else Some (0, basic_set_error (Some r) ERR_OUT_OF_MEMORY
                                       ''Cannot allocate line text memory'' P2))
             else Some (0, basic_set_error (Some r) ERR_OUT_OF_MEMORY
                             ''Cannot allocate line memory'' P1)))"

subsection \<open>The session functions\<close>

definition basic_init :: "ref option \<Rightarrow> Process \<Rightarrow> Process" where
  "basic_init state P =
     basic_set_error (Some (deref state)) ERR_NONE ''No error''
       (upd (deref state)
          (\<lambda>s. s\<lparr>programLines := [], currentLineNumber := 0, programSize := 0,
                 variables := [], running := 0, errorCode := ERR_NONE, errorMessage := [],
                 forStackPtr := 0, gosubStackPtr := 0, dataPointer := None, dataCount := 0,
                 inputBuffer := [], inputIndex := 0\<rparr>) P)"

definition line_end :: "char \<Rightarrow> bool" where
  \<comment> \<open>\<^verbatim>\<open>*ptr == '\n' || *ptr == '\r'\<close>\<close>
  "line_end c = (c = CHR 0x0A \<or> c = CHR 0x0D)"

text \<open>The loop of \<^verbatim>\<open>basic_load_program\<close> over the program text.\<close>

partial_function (option) load_loop ::
  "ref \<Rightarrow> string \<Rightarrow> Process \<Rightarrow> (int \<times> Process) option" where
  "load_loop r ptr P =
     (case dropWhile line_end ptr of
        [] \<Rightarrow> Some (1, P)
      | c # cs \<Rightarrow>
          if isdigit c
          then (case parse_int_loop 0 (c # cs) of
                  (n, p1) \<Rightarrow>
                    (let p2 = basic_skip_whitespace p1;
                         lineBuffer = takeWhile (\<lambda>x. x \<noteq> CHR 0x0A \<and> x \<noteq> CHR 0x0D) p2;
                         p3 = dropWhile (\<lambda>x. x \<noteq> CHR 0x0A \<and> x \<noteq> CHR 0x0D) p2
                     in if length lineBuffer > MAX_LINE_LENGTH - 1
                        then Some (0, basic_set_error (Some r) ERR_LINE_NOT_FOUND
                                        ''Line too long'' P)
                        else (case addLine r n lineBuffer P of
                                None \<Rightarrow> None
                              | Some (ok, P1) \<Rightarrow>
                                  if ok = 0 then Some (0, P1)
                                  else load_loop r (dropWhile line_end p3) P1)))
          else Some (0, basic_set_error (Some r) ERR_SYNTAX ''Expected line number'' P))"

definition basic_load_program ::
  "ref option \<Rightarrow> string option \<Rightarrow> Process \<Rightarrow> (int \<times> Process) option" where
  "basic_load_program state programText P =
     (case programText of
        None \<Rightarrow> Some (0, basic_set_error (Some (deref state)) ERR_SYNTAX ''Null program text'' P)
      | Some text \<Rightarrow> load_loop (deref state) text (basic_init (Some (deref state)) P))"

text \<open>
  The loop of \<^verbatim>\<open>basic_run_program\<close>: \<^verbatim>\<open>currentLine\<close> walks down the list; a statement
  that returns 0 ends the loop, any other goes on to \<^verbatim>\<open>currentLine->next\<close>.  The
  statement is executed in the text of the node, which is writable memory;
  \<open>write_back\<close> cuts that text where the lexer has left a NUL in it (\<open>i\<close> is the
  position of the node in the list).
\<close>

definition write_back :: "ref \<Rightarrow> nat \<Rightarrow> Process \<Rightarrow> Process" where
  "write_back r i P =
     (case text_nul P of
        None \<Rightarrow> P
      | Some k \<Rightarrow>
          upd r (\<lambda>s. s\<lparr>programLines :=
                   (programLines s)[i := (programLines s ! i)
                      \<lparr>lineText := take (length (lineText (programLines s ! i)) - Suc k)
                                    (lineText (programLines s ! i))\<rparr>]\<rparr>) P)"

fun run_loop :: "ref \<Rightarrow> nat \<Rightarrow> ProgramLine list \<Rightarrow> Process \<Rightarrow> Process option" where
  "run_loop r i [] P = Some P"
| "run_loop r i (currentLine # rest) P =
     (if running (mem P r) = 0 then Some P
      else (case executeStatement r (lineText currentLine)
                   (upd r (\<lambda>s. s\<lparr>currentLineNumber := lineNumber currentLine\<rparr>)
                      (P\<lparr>text_writable := True, text_nul := None\<rparr>)) of
              None \<Rightarrow> None
            | Some (ok, P1) \<Rightarrow>
                if ok = 0 then Some (write_back r i P1)
                else run_loop r (Suc i) rest (write_back r i P1)))"

definition basic_run_program :: "ref option \<Rightarrow> Process \<Rightarrow> (int \<times> Process) option" where
  "basic_run_program state P =
     (if programLines (mem P (deref state)) = []
      then Some (0, basic_set_error (Some (deref state)) ERR_SYNTAX ''No program loaded'' P)
      else (case run_loop (deref state) 0 (programLines (mem P (deref state)))
                   (upd (deref state) (\<lambda>s. s\<lparr>running := 1, currentLineNumber := 0\<rparr>) P) of
              None \<Rightarrow> None
            | Some P1 \<Rightarrow>
                Some (if errorCode (mem P1 (deref state)) = ERR_NONE then 1 else 0,
                      upd (deref state) (\<lambda>s. s\<lparr>running := 0\<rparr>) P1)))"

text \<open>
  \<^verbatim>\<open>basic_execute_line\<close> executes a statement in the text of the caller, which is NULL
  (\<^term>\<open>None\<close>), or text that cannot be written (a string literal), or a buffer that
  can.  When the lexer leaves a NUL in the buffer, \<^term>\<open>text_nul\<close> of the process
  returned tells where.
\<close>

datatype Text = ReadOnly string | Writable string

fun chars_of :: "Text \<Rightarrow> string" where
  "chars_of (ReadOnly cs) = cs"
| "chars_of (Writable cs) = cs"

fun is_writable :: "Text \<Rightarrow> bool" where
  "is_writable (ReadOnly cs) = False"
| "is_writable (Writable cs) = True"

definition basic_execute_line ::
  "ref option \<Rightarrow> Text option \<Rightarrow> Process \<Rightarrow> (int \<times> Process) option" where
  "basic_execute_line state line P =
     (case line of
        None \<Rightarrow> Some (0, basic_set_error (Some (deref state)) ERR_SYNTAX ''Null line text'' P)
      | Some text \<Rightarrow>
          executeStatement (deref state) (chars_of text)
            (P\<lparr>text_writable := is_writable text, text_nul := None\<rparr>))"

text \<open>
  The lexer stores into the text behind every identifier, and a statement starts with
  one (its keyword, or the variable of an assignment).  So in text that cannot be
  written, such as the string literals the test program passes, a statement that
  starts with a letter does not get past its first token.
\<close>

lemma get_token_read_only:
  assumes "basic_skip_whitespace p = c # cs" "basic_is_alpha c" "\<not> text_writable P"
  shows "basic_get_token p P = None"
proof -
  have "lex_token p = lex_token (c # cs)"
    using lex_token_skip [of p] assms(1) by simp
  then show ?thesis
    using assms(2,3) by (simp add: basic_get_token_def lex_token_alpha text_store_def)
qed

lemma statement_in_read_only_text:
  "basic_skip_whitespace cs = c # cs' \<Longrightarrow> basic_is_alpha c \<Longrightarrow>
   basic_execute_line state (Some (ReadOnly cs)) P = None"
  by (simp add: basic_execute_line_def executeStatement.simps
      get_token_read_only [of "c # cs'"] alpha_facts)


subsection \<open>A process to run examples on\<close>

text \<open>
  \<open>boot\<close> is a process in which nothing has been written yet, no input is waiting and
  every allocation succeeds; \<open>fresh r\<close> is the process after \<^verbatim>\<open>basic_init\<close> on the
  state \<open>r\<close>.  \<open>then_do\<close> runs a second call on the process a first call has left.
\<close>

definition blank_state :: BASICState where
  "blank_state =
     \<lparr>programLines = [], currentLineNumber = 0, programSize = 0, variables = [],
      running = 0, errorCode = 0, errorMessage = [], forStack = (\<lambda>i. 0), forStackPtr = 0,
      gosubStack = (\<lambda>i. 0), gosubStackPtr = 0, dataPointer = None, dataCount = 0,
      inputBuffer = [], inputIndex = 0\<rparr>"

definition boot :: Process where
  "boot = \<lparr>mem = (\<lambda>r. blank_state), stdout = [], stdin = [], rand_values = [],
            malloc_results = [], uninitialised = [], text_writable = False, text_nul = None\<rparr>"

definition fresh :: "ref \<Rightarrow> Process" where
  "fresh r = basic_init (Some r) boot"

definition then_do ::
  "(int \<times> Process) option \<Rightarrow> (Process \<Rightarrow> (int \<times> Process) option) \<Rightarrow> (int \<times> Process) option" where
  "then_do x f = (case x of None \<Rightarrow> None | Some (ok, P) \<Rightarrow> f P)"

definition lines_of :: "string list \<Rightarrow> string" where
  \<comment> \<open>a program text: the lines, each ended by a newline\<close>
  "lines_of ls = concat (map (\<lambda>l. l @ [CHR 0x0A]) ls)"

text \<open>
  \<open>session_view r\<close> is what a caller can observe of the state \<open>r\<close>: the line numbers
  of the program table, the variables with their values, the two stack pointers and the
  error code.  \<open>trace r\<close> makes a list of calls one after the other and lists, for
  each call, its return value and the view of \<open>r\<close> behind it (\<open>returning\<close> turns a
  function without a return value into a call).
\<close>

definition session_view ::
  "ref \<Rightarrow> Process \<Rightarrow> int list \<times> (string \<times> Payload) list \<times> int \<times> int \<times> int" where
  "session_view r P =
     (map lineNumber (programLines (mem P r)),
      map (\<lambda>v. (name v, payload v)) (variables (mem P r)),
      forStackPtr (mem P r), gosubStackPtr (mem P r), errorCode (mem P r))"

fun trace ::
  "ref \<Rightarrow> (Process \<Rightarrow> (int \<times> Process) option) list \<Rightarrow> Process \<Rightarrow>
   (int \<times> int list \<times> (string \<times> Payload) list \<times> int \<times> int \<times> int) list option" where
  "trace r [] P = Some []"
| "trace r (call # calls) P =
     (case call P of
        None \<Rightarrow> None
      | Some (ok, Q) \<Rightarrow> map_option ((#) (ok, session_view r Q)) (trace r calls Q))"

definition returning :: "(Process \<Rightarrow> Process) \<Rightarrow> Process \<Rightarrow> (int \<times> Process) option" where
  "returning f P = Some (1, f P)"

lemmas char_simps =
  basic_is_alpha_def basic_is_alphanumeric_def isdigit_def toupper_def digit_value_def
  basic_str_toupper_def statement_end_def line_end_def

lemmas lex_simps =
  lex_token_def identifier_token_def basic_get_keyword_type_def mk_token_def
  basic_parse_float_def basic_parse_int_def int32_def basic_get_token_def text_store_def read_name_def skip_comma_def
  quoted_text_def after_quote_def skip_sign_def expression_operator_def

lemmas eval_simps =
  basic_evaluate_expression.simps expression_loop.simps basic_evaluate_term.simps
  term_loop.simps basic_evaluate_factor.simps basic_evaluate_function.simps

lemmas state_simps =
  basic_set_error_def upd_def deref_def basic_init_def boot_def blank_state_def fresh_def
  basic_malloc_def variableCount_def then_do_def lines_of_def session_view_def returning_def

lemmas var_simps =
  basic_find_variable_def basic_create_variable_def basic_get_variable_value_def
  basic_set_variable_value_def basic_create_array_def vtype_def

lemmas handler_simps =
  basic_handle_print_def basic_handle_input_def basic_handle_let_def basic_handle_for_def for_header_def
  for_step_def for_push_def basic_handle_next_def basic_handle_gosub_def
  basic_handle_return_def basic_handle_goto_def basic_handle_goto_line_def findLine_def
  basic_handle_read_def basic_handle_data_def basic_handle_dim_def basic_handle_end_def
  basic_handle_stop_def basic_handle_rem_def executeStatement.simps basic_handle_if.simps
  print_loop.simps input_loop.simps read_loop.simps dim_sizes.simps dim_loop.simps

lemmas api_simps =
  basic_load_program_def load_loop.simps addLine_def link_line_def basic_run_program_def
  write_back_def basic_execute_line_def

lemmas print_simps =
  printf_6f_def print_chars_def basic_print_char_def basic_print_string_def
  basic_print_newline_def

lemmas run_simps =
  char_simps lex_simps eval_simps state_simps var_simps handler_simps api_simps print_simps
  limit_defs err_defs

section \<open>What a statement leaves alone\<close>

text \<open>
  The two control stacks of a state are the arrays \<^verbatim>\<open>forStack[32]\<close> and
  \<^verbatim>\<open>gosubStack[32]\<close> with their stack pointers; \<open>stack_inv\<close> is the bound on the two
  stack pointers.  For code that works on the state \<open>r\<close>, \<open>rest r\<close> reads what most
  of it leaves alone: the control stacks of every state, and the whole of every state
  other than \<open>r\<close> and the global state (in which the lexer sets its error).
  \<open>keeps r\<close> is what all of it respects: the bound on the stack pointers of every
  state, and every state other than \<open>r\<close> and the global state.
\<close>

definition stacks :: "BASICState \<Rightarrow> (nat \<Rightarrow> int) \<times> int \<times> (nat \<Rightarrow> int) \<times> int" where
  "stacks s = (forStack s, forStackPtr s, gosubStack s, gosubStackPtr s)"

definition stack_inv :: "BASICState \<Rightarrow> bool" where
  "stack_inv s =
     (0 \<le> forStackPtr s \<and> forStackPtr s \<le> 32 \<and> 0 \<le> gosubStackPtr s \<and> gosubStackPtr s \<le> 32)"

definition rest ::
  "ref \<Rightarrow> Process \<Rightarrow> ref \<Rightarrow> ((nat \<Rightarrow> int) \<times> int \<times> (nat \<Rightarrow> int) \<times> int) \<times> BASICState option" where
  "rest r P q = (stacks (mem P q), if q = r \<or> q = Global then None else Some (mem P q))"

definition keeps :: "ref \<Rightarrow> Process \<Rightarrow> Process \<Rightarrow> bool" where
  "keeps r P P' =
     (\<forall>q. (stack_inv (mem P q) \<longrightarrow> stack_inv (mem P' q)) \<and>
          (q \<noteq> r \<longrightarrow> q \<noteq> Global \<longrightarrow> mem P' q = mem P q))"

lemma rest_stacks: "rest r P' = rest r P \<Longrightarrow> stacks (mem P' q) = stacks (mem P q)"
  by (auto simp: rest_def fun_eq_iff)

lemma rest_others: "rest r P' = rest r P \<Longrightarrow> q \<noteq> r \<Longrightarrow> q \<noteq> Global \<Longrightarrow> mem P' q = mem P q"
  by (auto simp: rest_def fun_eq_iff split: if_splits)

lemma stack_inv_stacks: "stacks s' = stacks s \<Longrightarrow> stack_inv s' = stack_inv s"
  by (simp add: stack_inv_def stacks_def)

lemma rest_keeps: "rest r P' = rest r P \<Longrightarrow> keeps r P P'"
  unfolding keeps_def using rest_others [of r P' P] stack_inv_stacks [OF rest_stacks [of r P' P]]
  by auto

lemma keeps_refl [simp]: "keeps r P P"
  by (simp add: keeps_def)

lemma keeps_trans: "keeps r P Q \<Longrightarrow> keeps r Q S \<Longrightarrow> keeps r P S"
  by (simp add: keeps_def)

lemma keeps_rest: "rest r Q = rest r P \<Longrightarrow> keeps r Q S \<Longrightarrow> keeps r P S"
  by (rule keeps_trans [OF rest_keeps])

lemma keeps_rest_after: "keeps r P Q \<Longrightarrow> rest r S = rest r Q \<Longrightarrow> keeps r P S"
  by (rule keeps_trans [OF _ rest_keeps])

lemma rest_upd: "(\<And>s. stacks (f s) = stacks s) \<Longrightarrow> rest r (upd r f P) = rest r P"
  by (simp add: rest_def upd_def fun_eq_iff)

lemma rest_upd_Global:
  "(\<And>s. stacks (f s) = stacks s) \<Longrightarrow> rest r (upd Global f P) = rest r P"
  by (simp add: rest_def upd_def fun_eq_iff)

lemma rest_set_error [simp]:
  "rest r (basic_set_error (Some r) c m P) = rest r P"
  "rest r (basic_set_error (Some Global) c m P) = rest r P"
  "rest r (basic_set_error None c m P) = rest r P"
  unfolding basic_set_error_def deref_def
  by (simp_all add: rest_upd rest_upd_Global stacks_def)

lemma rest_fields [simp]:
  "rest r (P\<lparr>stdout := a\<rparr>) = rest r P"
  "rest r (P\<lparr>stdin := b\<rparr>) = rest r P"
  "rest r (P\<lparr>rand_values := c\<rparr>) = rest r P"
  "rest r (P\<lparr>malloc_results := d\<rparr>) = rest r P"
  "rest r (P\<lparr>uninitialised := u\<rparr>) = rest r P"
  "rest r (P\<lparr>text_writable := e\<rparr>) = rest r P"
  "rest r (P\<lparr>text_nul := f\<rparr>) = rest r P"
  by (simp_all add: rest_def fun_eq_iff)

lemma rest_print [simp]:
  "rest r (basic_print_char c P) = rest r P"
  "rest r (basic_print_string str P) = rest r P"
  "rest r (basic_print_newline P) = rest r P"
  by (simp_all add: basic_print_char_def basic_print_string_def basic_print_newline_def)

lemma rest_print_chars [simp]: "rest r (print_chars str P) = rest r P"
  unfolding print_chars_def by (induction str arbitrary: P) simp_all

lemma rest_printf [simp]: "rest r (printf_6f v P) = rest r P"
  by (simp add: printf_6f_def)

lemma rest_malloc: "basic_malloc P = (ok, P') \<Longrightarrow> rest r P' = rest r P"
  by (auto simp: basic_malloc_def split: list.splits)

lemma rest_input_string: "basic_input_string b n P = (b', P') \<Longrightarrow> rest r P' = rest r P"
  by (auto simp: basic_input_string_def Let_def split: if_splits)

lemma rest_rnd: "basic_rnd x P = (v, P') \<Longrightarrow> rest r P' = rest r P"
  by (auto simp: basic_rnd_def split: list.splits)

lemma rest_call_function: "call_function r f a P = (v, P') \<Longrightarrow> rest r P' = rest r P"
  by (auto simp: call_function_def rest_rnd split: if_splits)

lemma rest_text_store: "text_store st p P = Some P' \<Longrightarrow> rest r P' = rest r P"
  by (auto simp: text_store_def split: Store.splits if_splits)

lemma rest_get_token: "basic_get_token p P = Some (t, p', P') \<Longrightarrow> rest r P' = rest r P"
  by (auto simp: basic_get_token_def rest_text_store split: prod.splits option.splits)

lemma rest_get_variable_value:
  "basic_get_variable_value r n P = Some (v, P') \<Longrightarrow> rest r P' = rest r P"
  by (auto simp: basic_get_variable_value_def split: option.splits Payload.splits)

lemma rest_upd_variables [simp]: "rest r (upd r (\<lambda>s. s\<lparr>variables := f s\<rparr>) P) = rest r P"
  by (rule rest_upd) (simp add: stacks_def)

lemma rest_create_variable: "basic_create_variable r n t P = (i, P') \<Longrightarrow> rest r P' = rest r P"
  by (auto simp: basic_create_variable_def Let_def rest_malloc
      split: if_splits VariableType.splits prod.splits)

lemma rest_set_variable_value [simp]: "rest r (basic_set_variable_value r n v P) = rest r P"
  by (auto simp: basic_set_variable_value_def Let_def rest_create_variable
      split: option.splits prod.splits)

lemma rest_create_array: "basic_create_array r n dims k P = (ok, P') \<Longrightarrow> rest r P' = rest r P"
  by (auto simp: basic_create_array_def Let_def rest_malloc split: if_splits prod.splits)

text \<open>
  The six functions of the evaluator change the process only through the four
  functions they call, so a relation between processes that is reflexive and
  transitive and holds across each of those holds across the evaluator.
\<close>

lemma evaluate_rel:
  assumes rfl: "\<And>r P. R r P P"
    and trs: "\<And>r P Q S. R r P Q \<Longrightarrow> R r Q S \<Longrightarrow> R r P S"
    and err: "\<And>r c m P. R r P (basic_set_error (Some r) c m P)"
    and tok: "\<And>r p P t p' P'. basic_get_token p P = Some (t, p', P') \<Longrightarrow> R r P P'"
    and var: "\<And>r n P v P'. basic_get_variable_value r n P = Some (v, P') \<Longrightarrow> R r P P'"
    and call: "\<And>r f a P v P'. call_function r f a P = (v, P') \<Longrightarrow> R r P P'"
  shows "basic_evaluate_expression r p P = Some (v, p', P') \<Longrightarrow> R r P P'"
    and "expression_loop r left p P = Some (v, p', P') \<Longrightarrow> R r P P'"
    and "basic_evaluate_term r p P = Some (v, p', P') \<Longrightarrow> R r P P'"
    and "term_loop r left p P = Some (v, p', P') \<Longrightarrow> R r P P'"
    and "basic_evaluate_factor r p P = Some (v, p', P') \<Longrightarrow> R r P P'"
    and "basic_evaluate_function r fn p P = Some (v, p', P') \<Longrightarrow> R r P P'"
proof (induction r p P and r left p P and r p P and r left p P and r p P and r fn p P
    arbitrary: v p' P' and v p' P' and v p' P' and v p' P' and v p' P' and v p' P'
    rule: eval_induct)
  case (1 r p P)
  from "1.prems" obtain left p1 P1 where
    t: "basic_evaluate_term r p P = Some (left, p1, P1)" and g: "length p1 \<le> length p" and
    l: "expression_loop r left p1 P1 = Some (v, p', P')"
    by (auto simp: basic_evaluate_expression.simps split: option.splits if_splits)
  have a: "R r P P1" by (rule "1.IH"(1) [OF t])
  have b: "R r P1 P'" by (rule "1.IH"(2) [OF t refl refl g l])
  from a b show ?case by (rule trs)
next
  case (2 r left p P)
  show ?case
  proof (cases "expression_operator (basic_skip_whitespace p)")
    case None
    with "2.prems" have "P' = P" by (auto simp: expression_loop.simps)
    then show ?thesis using rfl by simp
  next
    case (Some a)
    obtain f p1 where a: "a = (f, p1)" by (cases a)
    from "2.prems" Some a obtain x p2 P2 where
      t: "basic_evaluate_term r p1 P = Some (x, p2, P2)" and g: "length p2 \<le> length p1" and
      l: "expression_loop r (f left x) p2 P2 = Some (v, p', P')"
      by (auto simp: expression_loop.simps split: option.splits if_splits)
    have x: "R r P P2" by (rule "2.IH"(1) [OF Some a [symmetric] t])
    have y: "R r P2 P'" by (rule "2.IH"(2) [OF Some a [symmetric] t refl refl g l])
    from x y show ?thesis by (rule trs)
  qed
next
  case (3 r p P)
  from "3.prems" obtain left p1 P1 where
    t: "basic_evaluate_factor r p P = Some (left, p1, P1)" and g: "length p1 \<le> length p" and
    l: "term_loop r left p1 P1 = Some (v, p', P')"
    by (auto simp: basic_evaluate_term.simps split: option.splits if_splits)
  have a: "R r P P1" by (rule "3.IH"(1) [OF t])
  have b: "R r P1 P'" by (rule "3.IH"(2) [OF t refl refl g l])
  from a b show ?case by (rule trs)
next
  case (4 r left p P)
  show ?case
  proof (cases "basic_skip_whitespace p")
    case Nil
    with "4.prems" have "P' = P" by (auto simp: term_loop.simps)
    then show ?thesis using rfl by simp
  next
    case (Cons c cs)
    consider (mul) "c = CHR ''*''" | (div) "c \<noteq> CHR ''*''" "c = CHR ''/''"
      | (other) "c \<noteq> CHR ''*''" "c \<noteq> CHR ''/''" by blast
    then show ?thesis
    proof cases
      case mul
      from "4.prems" Cons mul obtain x p2 P2 where
        t: "basic_evaluate_factor r cs P = Some (x, p2, P2)" and g: "length p2 \<le> length cs" and
        l: "term_loop r (left * x) p2 P2 = Some (v, p', P')"
        by (auto simp: term_loop.simps split: option.splits if_splits)
      have x: "R r P P2" by (rule "4.IH"(1) [OF Cons mul t])
      have y: "R r P2 P'" by (rule "4.IH"(2) [OF Cons mul t refl refl g l])
      from x y show ?thesis by (rule trs)
    next
      case div
      from "4.prems" Cons div obtain right p2 P2 where
        t: "basic_evaluate_factor r cs P = Some (right, p2, P2)" and
        d: "(right = 0 \<and>
             P' = basic_set_error (Some r) ERR_DIVISION_BY_ZERO ''Division by zero'' P2) \<or>
            (right \<noteq> 0 \<and> length p2 \<le> length cs \<and>
             term_loop r (left / right) p2 P2 = Some (v, p', P'))"
        by (auto simp: term_loop.simps split: option.splits if_splits)
      have x: "R r P P2" by (rule "4.IH"(3) [OF Cons div t])
      from d have y: "R r P2 P'"
      proof
        assume "right = 0 \<and>
             P' = basic_set_error (Some r) ERR_DIVISION_BY_ZERO ''Division by zero'' P2"
        then show ?thesis using err by simp
      next
        assume h: "right \<noteq> 0 \<and> length p2 \<le> length cs \<and>
             term_loop r (left / right) p2 P2 = Some (v, p', P')"
        show ?thesis
          by (rule "4.IH"(4) [OF Cons div t refl refl _ _]) (use h in auto)
      qed
      from x y show ?thesis by (rule trs)
    next
      case other
      with "4.prems" Cons have "P' = P" by (auto simp: term_loop.simps)
      then show ?thesis using rfl by simp
    qed
  qed
next
  case (5 r p P)
  obtain sign p2 where s: "skip_sign (basic_skip_whitespace p) = (sign, p2)"
    by (cases "skip_sign (basic_skip_whitespace p)")
  show ?case
  proof (cases "basic_skip_whitespace p2")
    case Nil
    with "5.prems" s have "P' = basic_set_error (Some r) ERR_SYNTAX
        ''Expected number, variable, or expression'' P"
      by (auto simp: basic_evaluate_factor.simps)
    then show ?thesis using err by simp
  next
    case (Cons c cs)
    consider (paren) "c = CHR ''(''"
      | (num) "c \<noteq> CHR ''(''" "isdigit c \<or> c = CHR ''.''"
      | (alpha) "c \<noteq> CHR ''(''" "\<not> (isdigit c \<or> c = CHR ''.'')" "basic_is_alpha c"
      | (other) "c \<noteq> CHR ''(''" "\<not> (isdigit c \<or> c = CHR ''.'')" "\<not> basic_is_alpha c"
      by blast
    then show ?thesis
    proof cases
      case paren
      from "5.prems" s Cons paren obtain result p5 P5 where
        e: "basic_evaluate_expression r cs P = Some (result, p5, P5)" and
        d: "P' = P5 \<or> P' = basic_set_error (Some r) ERR_SYNTAX ''Missing closing parenthesis'' P5"
        by (auto simp: basic_evaluate_factor.simps split: option.splits if_splits list.splits)
      have x: "R r P P5" by (rule "5.IH"(1) [OF s [symmetric] Cons paren e])
      from d have y: "R r P5 P'" using rfl err by auto
      from x y show ?thesis by (rule trs)
    next
      case num
      with "5.prems" s Cons have "P' = P"
        by (auto simp: basic_evaluate_factor.simps split: prod.splits)
      then show ?thesis using rfl by simp
    next
      case alpha
      from "5.prems" s Cons alpha obtain t p5 P5 where
        tk: "basic_get_token (c # cs) P = Some (t, p5, P5)"
        by (cases "basic_get_token (c # cs) P") (auto simp: basic_evaluate_factor.simps)
      have x: "R r P P5" using tk by (rule tok)
      from "5.prems" s Cons alpha tk obtain token where t: "t = Some token"
        by (cases t) (auto simp: basic_evaluate_factor.simps)
      consider (v) "type token = TOK_VARIABLE"
        | (f) "type token \<noteq> TOK_VARIABLE" "type token = TOK_FUNCTION"
        | (o) "type token \<noteq> TOK_VARIABLE" "type token \<noteq> TOK_FUNCTION" by blast
      then have y: "R r P5 P'"
      proof cases
        case v
        with "5.prems" s Cons alpha tk t obtain result where
          "basic_get_variable_value r (stringValue token) P5 = Some (result, P')"
          by (auto simp: basic_evaluate_factor.simps split: option.splits)
        then show ?thesis by (rule var)
      next
        case f
        with "5.prems" s Cons alpha tk t obtain result P6 where
          g: "length p5 < length (c # cs)" and
          fn: "basic_evaluate_function r (stringValue token) p5 P5 = Some (result, p', P')"
          by (auto simp: basic_evaluate_factor.simps split: option.splits if_splits)
        show ?thesis
          by (rule "5.IH"(2) [OF s [symmetric] Cons alpha(1,2,3) tk refl t refl f g
                fn])
      next
        case o
        with "5.prems" s Cons alpha tk t
        have "P' = basic_set_error (Some r) ERR_SYNTAX ''Expected variable or function'' P5"
          by (auto simp: basic_evaluate_factor.simps)
        then show ?thesis using err by simp
      qed
      from x y show ?thesis by (rule trs)
    next
      case other
      with "5.prems" s Cons have "P' = basic_set_error (Some r) ERR_SYNTAX
          ''Expected number, variable, or expression'' P"
        by (auto simp: basic_evaluate_factor.simps)
      then show ?thesis using err by simp
    qed
  qed
next
  case (6 r functionName p P)
  show ?case
  proof (cases "basic_skip_whitespace p")
    case Nil
    with "6.prems" have "P' = basic_set_error (Some r) ERR_SYNTAX
        ''Expected opening parenthesis'' P"
      by (auto simp: basic_evaluate_function.simps)
    then show ?thesis using err by simp
  next
    case (Cons c cs)
    show ?thesis
    proof (cases "c = CHR ''(''")
      case False
      with "6.prems" Cons have "P' = basic_set_error (Some r) ERR_SYNTAX
          ''Expected opening parenthesis'' P"
        by (auto simp: basic_evaluate_function.simps)
      then show ?thesis using err by simp
    next
      case True
      from "6.prems" Cons True obtain argument p2 P2 where
        e: "basic_evaluate_expression r cs P = Some (argument, p2, P2)"
        by (cases "basic_evaluate_expression r cs P")
           (auto simp: basic_evaluate_function.simps)
      have x: "R r P P2" by (rule "6.IH" [OF Cons _ e]) (use True in simp)
      from "6.prems" Cons True e
      have "P' = P2 \<or> P' = basic_set_error (Some r) ERR_SYNTAX ''Expected closing parenthesis'' P2
          \<or> (\<exists>res. call_function r functionName argument P2 = (res, P'))"
        by (auto simp: basic_evaluate_function.simps split: if_splits prod.splits list.splits)
      then have y: "R r P2 P'" using rfl err call by auto
      from x y show ?thesis by (rule trs)
    qed
  qed
qed


lemma rest_evaluate:
  "basic_evaluate_expression r p P = Some (v, p', P') \<Longrightarrow> rest r P' = rest r P"
  by (rule evaluate_rel(1) [where R = "\<lambda>r P P'. rest r P' = rest r P" and r = r and p = p and P = P])
     (auto simp: rest_get_token rest_get_variable_value rest_call_function)

lemma rest_print_loop:
  assumes "print_loop r nl p P = Some y"
  shows "rest r (snd y) = rest r P"
proof -
  have "(\<lambda>x y. rest (fst (fst (fst x))) (snd y) = rest (fst (fst (fst x))) (snd x))
          (((r, nl), p), P) y"
  proof (rule print_loop.raw_induct [OF _ assms], goal_cases)
    case (1 f r newline p P y)
    show ?case
    proof (cases "basic_skip_whitespace p")
      case Nil
      then show ?thesis using 1(2) by (auto split: if_splits)
    next
      case (Cons c cs)
      then show ?thesis using 1(2)
        by (auto split: if_splits option.splits dest!: 1(1) rest_evaluate)
    qed
  qed
  then show ?thesis by simp
qed

lemma rest_input_loop:
  assumes "input_loop r b p P = Some y"
  shows "rest r (snd y) = rest r P"
proof -
  have "(\<lambda>x y. rest (fst (fst (fst x))) (snd y) = rest (fst (fst (fst x))) (snd x))
          (((r, b), p), P) y"
  proof (rule input_loop.raw_induct [OF _ assms], goal_cases)
    case (1 f r buffer p P y)
    show ?case
    proof (cases "basic_skip_whitespace p")
      case Nil
      then show ?thesis using 1(2) by (auto split: if_splits)
    next
      case (Cons c cs)
      then show ?thesis using 1(2)
        by (auto split: if_splits option.splits prod.splits simp: rest_input_string dest!: 1(1))
    qed
  qed
  then show ?thesis by simp
qed

lemma rest_read_loop:
  assumes "read_loop r p P = Some y"
  shows "rest r (snd y) = rest r P"
proof -
  have "(\<lambda>x y. rest (fst (fst x)) (snd y) = rest (fst (fst x)) (snd x)) ((r, p), P) y"
  proof (rule read_loop.raw_induct [OF _ assms], goal_cases)
    case (1 f r p P y)
    show ?case
    proof (cases "basic_skip_whitespace p")
      case Nil
      then show ?thesis using 1(2) by (auto split: if_splits)
    next
      case (Cons c cs)
      then show ?thesis using 1(2)
        by (auto split: if_splits option.splits prod.splits dest!: 1(1))
    qed
  qed
  then show ?thesis by simp
qed

lemma rest_create_array_snd [simp]: "rest r (snd (basic_create_array r n dims k P)) = rest r P"
  using rest_create_array [of r n dims k P] by (cases "basic_create_array r n dims k P") simp

lemma rest_dim_sizes:
  assumes "dim_sizes r dims p P = Some y"
  shows "\<forall>P'. y = Inl P' \<longrightarrow> rest r P' = rest r P"
proof -
  have "(\<lambda>x y. \<forall>P'. y = Inl P' \<longrightarrow> rest (fst (fst (fst x))) P' = rest (fst (fst (fst x))) (snd x))
          (((r, dims), p), P) y"
  proof (rule dim_sizes.raw_induct [OF _ assms], goal_cases)
    case (1 f r dims p P y)
    show ?case
    proof (cases p)
      case Nil
      then show ?thesis using 1(2) by (auto split: if_splits)
    next
      case (Cons c cs)
      then show ?thesis using 1(2)
        by (auto split: if_splits option.splits prod.splits sum.splits dest!: 1(1))
    qed
  qed
  then show ?thesis by simp
qed

lemma rest_dim_loop:
  assumes "dim_loop r p P = Some y"
  shows "rest r (snd y) = rest r P"
proof -
  have "(\<lambda>x y. rest (fst (fst x)) (snd y) = rest (fst (fst x)) (snd x)) ((r, p), P) y"
  proof (rule dim_loop.raw_induct [OF _ assms], goal_cases)
    case (1 f r p P y)
    show ?case
    proof (cases "basic_skip_whitespace p")
      case Nil
      then show ?thesis using 1(2) by (auto split: if_splits)
    next
      case (Cons c cs)
      then show ?thesis using 1(2)
        by (auto split: if_splits option.splits prod.splits sum.splits list.splits
            simp: rest_create_array dest!: 1(1) rest_dim_sizes)
    qed
  qed
  then show ?thesis by simp
qed

lemma rest_handle_print: "basic_handle_print r p P = Some (ok, P') \<Longrightarrow> rest r P' = rest r P"
  using rest_print_loop [of r 1 p P "(ok, P')"] by (simp add: basic_handle_print_def)

lemma rest_handle_input: "basic_handle_input r p P = Some (ok, P') \<Longrightarrow> rest r P' = rest r P"
  using rest_input_loop [of r "uninitialised P" p P "(ok, P')"]
  by (simp add: basic_handle_input_def)

lemma rest_handle_read: "basic_handle_read r p P = Some (ok, P') \<Longrightarrow> rest r P' = rest r P"
  using rest_read_loop [of r p P "(ok, P')"] by (simp add: basic_handle_read_def)

lemma rest_handle_dim: "basic_handle_dim r p P = Some (ok, P') \<Longrightarrow> rest r P' = rest r P"
  using rest_dim_loop [of r p P "(ok, P')"] by (simp add: basic_handle_dim_def)

lemma rest_handle_let: "basic_handle_let r p P = Some (ok, P') \<Longrightarrow> rest r P' = rest r P"
  by (auto simp: basic_handle_let_def split: list.splits if_splits prod.splits option.splits
      dest!: rest_evaluate)

lemma rest_goto_line: "basic_handle_goto_line r n P = (ok, P') \<Longrightarrow> rest r P' = rest r P"
  by (auto simp: basic_handle_goto_line_def split: option.splits)

lemma rest_handle_goto: "basic_handle_goto r p P = Some (ok, P') \<Longrightarrow> rest r P' = rest r P"
  by (auto simp: basic_handle_goto_def rest_goto_line split: prod.splits if_splits)

lemma rest_upd_running [simp]: "rest r (upd r (\<lambda>s. s\<lparr>running := f s\<rparr>) P) = rest r P"
  by (rule rest_upd) (simp add: stacks_def)

lemma rest_handle_simple:
  "basic_handle_data r p P = Some (ok, P') \<Longrightarrow> rest r P' = rest r P"
  "basic_handle_end r p P = Some (ok, P') \<Longrightarrow> rest r P' = rest r P"
  "basic_handle_stop r p P = Some (ok, P') \<Longrightarrow> rest r P' = rest r P"
  "basic_handle_rem r p P = Some (ok, P') \<Longrightarrow> rest r P' = rest r P"
  by (auto simp: basic_handle_data_def basic_handle_end_def basic_handle_stop_def
      basic_handle_rem_def)

lemma errorCode_set_error [simp]: "errorCode (mem (basic_set_error (Some r) c m P) r) = c"
  by (simp add: basic_set_error_def upd_def deref_def)

lemma for_step_Inl:
  "for_step r p P = Some (Inl P') \<Longrightarrow> rest r P' = rest r P \<and> errorCode (mem P' r) \<noteq> ERR_NONE"
  by (auto simp: for_step_def rest_get_token
      split: list.splits if_splits prod.splits option.splits dest!: rest_evaluate)

lemma for_step_Inr: "for_step r p P = Some (Inr (step, p', P')) \<Longrightarrow> rest r P' = rest r P"
  by (auto simp: for_step_def rest_get_token
      split: list.splits if_splits prod.splits option.splits dest!: rest_evaluate)

lemma for_header_Inl:
  "for_header r p P = Some (Inl P') \<Longrightarrow> rest r P' = rest r P \<and> errorCode (mem P' r) \<noteq> ERR_NONE"
  apply (simp add: for_header_def split: list.splits if_splits prod.splits option.splits
      sum.splits)
  apply (auto simp: rest_get_token err_defs dest!: rest_evaluate for_step_Inl for_step_Inr)
  done

lemma for_header_Inr:
  "for_header r p P = Some (Inr (n, x, Q)) \<Longrightarrow> rest r Q = rest r P"
  apply (simp add: for_header_def split: list.splits if_splits prod.splits option.splits
      sum.splits)
  apply (auto simp: rest_get_token dest!: rest_evaluate for_step_Inl for_step_Inr)
  done

lemma keeps_upd:
  "(stack_inv (mem P r) \<Longrightarrow> stack_inv (f (mem P r))) \<Longrightarrow> keeps r P (upd r f P)"
  by (simp add: keeps_def upd_def)

lemma keeps_set_error [simp]:
  "keeps r P (basic_set_error (Some r) c m Q) = keeps r P Q"
proof
  assume "keeps r P (basic_set_error (Some r) c m Q)"
  then show "keeps r P Q"
    by (rule keeps_rest_after) simp
next
  assume "keeps r P Q"
  then show "keeps r P (basic_set_error (Some r) c m Q)"
    by (rule keeps_rest_after) simp
qed

lemma keeps_for_push: "for_push r n x P = Some (ok, P') \<Longrightarrow> keeps r P P'"
proof -
  assume a: "for_push r n x P = Some (ok, P')"
  let ?P1 = "basic_set_variable_value r n x P"
  have s: "rest r ?P1 = rest r P" by simp
  have "keeps r ?P1 P'"
    using a by (auto simp: for_push_def Let_def stack_inv_def split: if_splits
        intro!: keeps_upd)
  with s show ?thesis by (rule keeps_rest)
qed

lemma keeps_handle_for: "basic_handle_for r p P = Some (ok, P') \<Longrightarrow> keeps r P P'"
  by (auto simp: basic_handle_for_def split: option.splits sum.splits
      dest!: for_header_Inl for_header_Inr keeps_for_push intro: rest_keeps keeps_rest)

lemma keeps_handle_next: "basic_handle_next r p P = Some (ok, P') \<Longrightarrow> keeps r P P'"
  by (auto simp: basic_handle_next_def stack_inv_def split: if_splits intro!: keeps_upd)

lemma keeps_goto_line:
  "keeps r P Q \<Longrightarrow> basic_handle_goto_line r n Q = (ok, P') \<Longrightarrow> keeps r P P'"
  by (auto simp: basic_handle_goto_line_def split: option.splits)

lemma keeps_handle_gosub: "basic_handle_gosub r p P = Some (ok, P') \<Longrightarrow> keeps r P P'"
  by (auto simp: basic_handle_gosub_def stack_inv_def split: if_splits prod.splits
      elim!: keeps_goto_line [rotated] intro!: keeps_upd)

lemma keeps_handle_return: "basic_handle_return r p P = Some (ok, P') \<Longrightarrow> keeps r P P'"
  by (auto simp: basic_handle_return_def stack_inv_def Let_def split: if_splits prod.splits
      elim!: keeps_goto_line [rotated] intro!: keeps_upd)

lemma keeps_statement:
  "executeStatement r p P = Some (ok, P') \<Longrightarrow> keeps r P P'"
  "basic_handle_if r p P = Some (ok, P') \<Longrightarrow> keeps r P P'"
proof (induction r p P and r p P arbitrary: ok P' and ok P'
    rule: executeStatement_basic_handle_if.induct)
  case (1 r p P)
  show ?case
  proof (cases "basic_skip_whitespace p")
    case Nil
    with "1.prems" show ?thesis by (simp add: executeStatement.simps)
  next
    case (Cons c cs)
    from "1.prems" Cons obtain t p1 P1 where
      tk: "basic_get_token (c # cs) P = Some (t, p1, P1)"
      by (cases "basic_get_token (c # cs) P") (auto simp: executeStatement.simps)
    have s: "rest r P1 = rest r P" using tk by (rule rest_get_token)
    show ?thesis
    proof (cases t)
      case None
      with "1.prems" Cons tk have "P' = basic_set_error (Some r) ERR_SYNTAX ''Invalid token'' P1"
        by (simp add: executeStatement.simps)
      then show ?thesis using s by (simp add: rest_keeps)
    next
      case (Some token)
      have "keeps r P1 P'"
      proof (cases "type token = TOK_IF")
        case True
        with "1.prems" Cons tk Some have h: "basic_handle_if r p1 P1 = Some (ok, P')"
          by (simp add: executeStatement.simps)
        show ?thesis
          by (rule "1.IH" [OF Cons tk refl Some refl _ _ _ True h]) (simp_all add: True)
      next
        case False
        with "1.prems" Cons tk Some show ?thesis
          by (auto simp: executeStatement.simps split: if_splits
              dest: rest_handle_print rest_handle_input rest_handle_let rest_handle_goto
                rest_handle_read rest_handle_dim rest_handle_simple
                keeps_handle_for keeps_handle_next keeps_handle_gosub keeps_handle_return
              intro: rest_keeps)
      qed
      with s show ?thesis by (rule keeps_rest)
    qed
  qed
next
  case (2 r p P)
  from "2.prems" obtain condition p1 P1 where
    e: "basic_evaluate_expression r p P = Some (condition, p1, P1)"
    by (cases "basic_evaluate_expression r p P") (auto simp: basic_handle_if.simps)
  have s: "rest r P1 = rest r P" using e by (rule rest_evaluate)
  have "keeps r P1 P'"
  proof (cases "errorCode (mem P1 r) \<noteq> ERR_NONE")
    case True
    with "2.prems" e show ?thesis by (simp add: basic_handle_if.simps)
  next
    case ne: False
    show ?thesis
    proof (cases "basic_skip_whitespace p1")
      case Nil
      with "2.prems" e ne show ?thesis by (auto simp: basic_handle_if.simps)
    next
      case (Cons c cs)
      from "2.prems" e ne Cons obtain t p2 P2 where
        tk: "basic_get_token (c # cs) P1 = Some (t, p2, P2)"
        by (cases "basic_get_token (c # cs) P1") (auto simp: basic_handle_if.simps)
      have s2: "rest r P2 = rest r P1" using tk by (rule rest_get_token)
      from "2.prems" e ne Cons tk obtain token where t: "t = Some token"
        by (cases t) (auto simp: basic_handle_if.simps)
      have "keeps r P2 P'"
      proof (cases "type token = TOK_THEN \<and> condition \<noteq> 0")
        case True
        with "2.prems" e ne Cons tk t have h: "executeStatement r p2 P2 = Some (ok, P')"
          by (simp add: basic_handle_if.simps)
        show ?thesis
          by (rule "2.IH" [OF e refl refl ne Cons tk refl t refl _ _ h])
             (use True in simp_all)
      next
        case False
        with "2.prems" e ne Cons tk t show ?thesis
          by (auto simp: basic_handle_if.simps split: if_splits)
      qed
      with s2 show ?thesis by (rule keeps_rest)
    qed
  qed
  with s show ?case by (rule keeps_rest)
qed

lemma rest_upd_lines [simp]:
  "rest r (upd r (\<lambda>s. s\<lparr>programLines := f s\<rparr>) P) = rest r P"
  "rest r (upd r (\<lambda>s. s\<lparr>programLines := f s, programSize := g s\<rparr>) P) = rest r P"
  "rest r (upd r (\<lambda>s. s\<lparr>currentLineNumber := h s\<rparr>) P) = rest r P"
  "rest r (upd r (\<lambda>s. s\<lparr>running := k s, currentLineNumber := h s\<rparr>) P) = rest r P"
  by (rule rest_upd, simp add: stacks_def)+

lemma rest_write_back [simp]: "rest r (write_back r i P) = rest r P"
  by (simp add: write_back_def split: option.splits)

lemma keeps_run_loop: "run_loop r i ls P = Some P' \<Longrightarrow> keeps r P P'"
proof (induction ls arbitrary: i P)
  case Nil
  then show ?case by simp
next
  case (Cons currentLine rest')
  let ?P0 = "upd r (\<lambda>s. s\<lparr>currentLineNumber := lineNumber currentLine\<rparr>)
               (P\<lparr>text_writable := True, text_nul := None\<rparr>)"
  have s0: "rest r ?P0 = rest r P" by simp
  show ?case
  proof (cases "running (mem P r) = 0")
    case True
    with Cons.prems show ?thesis by simp
  next
    case False
    with Cons.prems obtain ok P1 where
      e: "executeStatement r (lineText currentLine) ?P0 = Some (ok, P1)"
      by (cases "executeStatement r (lineText currentLine) ?P0") auto
    have k1: "keeps r ?P0 P1" using e by (rule keeps_statement(1))
    have k2: "keeps r ?P0 (write_back r i P1)"
      using k1 by (rule keeps_rest_after) simp
    have "keeps r (write_back r i P1) P'"
    proof (cases "ok = 0")
      case True
      with Cons.prems False e show ?thesis by simp
    next
      case nz: False
      with Cons.prems False e have "run_loop r (Suc i) rest' (write_back r i P1) = Some P'"
        by simp
      then show ?thesis by (rule Cons.IH)
    qed
    with k2 have "keeps r ?P0 P'" by (rule keeps_trans)
    with s0 show ?thesis by (rule keeps_rest)
  qed
qed

lemma keeps_init: "keeps (deref state) P (basic_init state P)"
  unfolding basic_init_def
  by (rule keeps_rest_after [OF keeps_upd]) (simp_all add: stack_inv_def)

lemma rest_addLine: "addLine r n text P = Some (ok, P') \<Longrightarrow> rest r P' = rest r P"
  by (auto simp: addLine_def rest_malloc split: if_splits prod.splits option.splits)

lemma rest_load_loop:
  assumes "load_loop r ptr P = Some y"
  shows "rest r (snd y) = rest r P"
proof -
  have "(\<lambda>x y. rest (fst (fst x)) (snd y) = rest (fst (fst x)) (snd x)) ((r, ptr), P) y"
  proof (rule load_loop.raw_induct [OF _ assms], goal_cases)
    case (1 f r ptr P y)
    show ?case
    proof (cases "dropWhile line_end ptr")
      case Nil
      from 1(2) have "y = (1, P)" unfolding Nil by simp
      then show ?thesis by simp
    next
      case (Cons c cs)
      from 1(2) show ?thesis unfolding Cons
        by (auto simp: Let_def rest_addLine split: if_splits option.splits prod.splits
            dest!: 1(1))
    qed
  qed
  then show ?thesis by simp
qed

lemma keeps_load_program:
  assumes "basic_load_program state programText P = Some (ok, P')"
  shows "keeps (deref state) P P'"
proof (cases programText)
  case None
  with assms show ?thesis by (auto simp: basic_load_program_def)
next
  case (Some src)
  with assms
  have "load_loop (deref state) src (basic_init (Some (deref state)) P) = Some (ok, P')"
    by (simp add: basic_load_program_def)
  from rest_load_loop [OF this]
  have "rest (deref state) P' = rest (deref state) (basic_init (Some (deref state)) P)"
    by simp
  with keeps_init [of "Some (deref state)" P] show ?thesis
    by (simp add: deref_def keeps_rest_after)
qed

lemma keeps_run_program:
  assumes "basic_run_program state P = Some (ok, P')"
  shows "keeps (deref state) P P'"
proof (cases "programLines (mem P (deref state)) = []")
  case True
  with assms show ?thesis by (auto simp: basic_run_program_def)
next
  case False
  let ?P0 = "upd (deref state) (\<lambda>s. s\<lparr>running := 1, currentLineNumber := 0\<rparr>) P"
  from assms False obtain P1 where
    l: "run_loop (deref state) 0 (programLines (mem P (deref state))) ?P0 = Some P1" and
    p: "P' = upd (deref state) (\<lambda>s. s\<lparr>running := 0\<rparr>) P1"
    by (auto simp: basic_run_program_def split: option.splits)
  have "keeps (deref state) ?P0 P1" using l by (rule keeps_run_loop)
  then have "keeps (deref state) ?P0 P'" unfolding p by (rule keeps_rest_after) simp
  moreover have "rest (deref state) ?P0 = rest (deref state) P" by simp
  ultimately show ?thesis by (rule keeps_rest [rotated])
qed

lemma keeps_execute_line:
  assumes "basic_execute_line state line P = Some (ok, P')"
  shows "keeps (deref state) P P'"
proof (cases line)
  case None
  with assms show ?thesis by (auto simp: basic_execute_line_def)
next
  case (Some src)
  let ?P0 = "P\<lparr>text_writable := is_writable src, text_nul := None\<rparr>"
  from assms Some have "executeStatement (deref state) (chars_of src) ?P0 = Some (ok, P')"
    by (simp add: basic_execute_line_def)
  then have "keeps (deref state) ?P0 P'" by (rule keeps_statement(1))
  moreover have "rest (deref state) ?P0 = rest (deref state) P" by simp
  ultimately show ?thesis by (rule keeps_rest [rotated])
qed

lemma keeps_api_set_error: "keeps (deref state) P (basic_set_error state c m P)"
  by (cases state) (simp_all add: deref_def rest_keeps)


section \<open>Sessions\<close>
















text \<open>
  The NULL state pointer.  The callers' states are the objects \<open>Obj n\<close>; by
  \<open>keeps\<close>, a call on the global state leaves them all alone.
\<close>

lemma deref_null: "deref None = deref (Some Global)"
  by (simp add: deref_def)

lemma null_calls:
  "basic_init None P = basic_init (Some Global) P"
  "basic_load_program None programText P = basic_load_program (Some Global) programText P"
  "basic_run_program None P = basic_run_program (Some Global) P"
  "basic_execute_line None line P = basic_execute_line (Some Global) line P"
  "basic_set_error None code message P = basic_set_error (Some Global) code message P"
  unfolding basic_init_def basic_load_program_def basic_run_program_def basic_execute_line_def
    basic_set_error_def deref_null
  by (rule refl)+

lemma keeps_null: "keeps (deref None) P P' \<Longrightarrow> mem P' (Obj n) = mem P (Obj n)"
  by (simp add: keeps_def deref_def)

lemma null_calls_frame:
  "mem (basic_init None P) (Obj n) = mem P (Obj n)"
  "mem (basic_set_error None code message P) (Obj n) = mem P (Obj n)"
  "basic_load_program None programText P = Some (ok, P') \<Longrightarrow> mem P' (Obj n) = mem P (Obj n)"
  "basic_run_program None P = Some (ok, P') \<Longrightarrow> mem P' (Obj n) = mem P (Obj n)"
  "basic_execute_line None line P = Some (ok, P') \<Longrightarrow> mem P' (Obj n) = mem P (Obj n)"
  using keeps_init [of None P] keeps_api_set_error [of None P code message]
    keeps_load_program [of None programText P ok P'] keeps_run_program [of None P ok P']
    keeps_execute_line [of None line P ok P']
  by (simp_all add: keeps_null)

lemma null_trace:
  "trace Global
     [basic_load_program None
        (Some (lines_of [''0 REM'', ''10 LET A = 5'', ''20 FOR I=1 TO 3'', ''30 GOSUB 0''])),
      basic_run_program None,
      basic_execute_line None (Some (Writable ''NEXT'')),
      basic_execute_line None (Some (Writable ''RETURN'')),
      basic_execute_line None (Some (Writable ''LET B = A + 1'')),
      returning (basic_set_error None ERR_TYPE_MISMATCH ''stop''),
      basic_run_program None,
      returning (basic_init None),
      basic_run_program None]
     (boot\<lparr>mem := m\<rparr>) =
   Some [(1, [0, 10, 20, 30], [], 0, 0, ERR_NONE),
         (1, [0, 10, 20, 30], [(''A'', NumericValue 5), (''I'', NumericValue 1)], 1, 1, ERR_NONE),
         (1, [0, 10, 20, 30], [(''A'', NumericValue 5), (''I'', NumericValue 1)], 0, 1, ERR_NONE),
         (1, [0, 10, 20, 30], [(''A'', NumericValue 5), (''I'', NumericValue 1)], 0, 0, ERR_NONE),
         (1, [0, 10, 20, 30],
          [(''A'', NumericValue 5), (''I'', NumericValue 1), (''B'', NumericValue 6)], 0, 0, ERR_NONE),
         (1, [0, 10, 20, 30],
          [(''A'', NumericValue 5), (''I'', NumericValue 1), (''B'', NumericValue 6)], 0, 0,
          ERR_TYPE_MISMATCH),
         (0, [0, 10, 20, 30],
          [(''A'', NumericValue 5), (''I'', NumericValue 1), (''B'', NumericValue 6)], 0, 0,
          ERR_TYPE_MISMATCH),
         (1, [], [], 0, 0, ERR_NONE),
         (0, [], [], 0, 0, ERR_SYNTAX)]"
  by (simp add: run_simps)

lemma caller_state_apart:
  "trace (Obj 0)
     [basic_load_program None (Some (lines_of [''10 LET A = 5''])),
      basic_run_program None,
      basic_run_program (Some (Obj 0))]
     (fresh (Obj 0)) =
   Some [(1, [], [], 0, 0, ERR_NONE),
         (1, [], [], 0, 0, ERR_NONE),
         (0, [], [], 0, 0, ERR_SYNTAX)]"
  by (simp add: run_simps)


text \<open>The text that \<^verbatim>\<open>printf("%f")\<close> gives for 3.\<close>

lemma replicate_5: "replicate 5 c = [c, c, c, c, c]"
  by (simp add: numeral_eq_Suc)

lemma digit_chars: "char_of (48 :: nat) = CHR ''0''" "char_of (51 :: nat) = CHR ''3''"
  by (simp_all add: char_of_def bit_Suc_0_iff)

lemma format_6f_3: "format_6f 3 = ''3.000000''"
  by (simp add: format_6f_def round_half_even_def show_nat.simps digit_chars replicate_5)


section \<open>The claims\<close>

text \<open>
  C3.  \<^verbatim>\<open>LET Y = 10 / 0\<close> returns 0 and the only change it makes is the error of the
  state, which becomes the division-by-zero error: the variables of every state are as
  before, whatever Y holds or does not hold, and no value (so no infinity) is assigned.
  This holds of the handler at the cursor behind \<^verbatim>\<open>LET\<close> in every process and state,
  and of the statement in a buffer that can be written, for every process and state
  pointer (also NULL).  As line 20 of a program, behind a line that sets Y to 5, the
  statement ends the run with the error at line 20 and Y still 5.
\<close>

theorem let_division_by_zero:
  "basic_handle_let r '' Y = 10 / 0'' P =
     Some (0, basic_set_error (Some r) ERR_DIVISION_BY_ZERO ''Division by zero'' P) \<and>
   basic_execute_line state (Some (Writable ''LET Y = 10 / 0'')) P =
     Some (0, basic_set_error state ERR_DIVISION_BY_ZERO ''Division by zero''
               (P\<lparr>text_writable := True, text_nul := None\<rparr>)) \<and>
   errorCode (mem (basic_set_error state ERR_DIVISION_BY_ZERO ''Division by zero'' P)
     (deref state)) = ERR_DIVISION_BY_ZERO \<and>
   (\<forall>q. variables (mem (basic_set_error state ERR_DIVISION_BY_ZERO ''Division by zero'' P) q)
     = variables (mem P q)) \<and>
   map_option (\<lambda>(ok, Q). (ok, variables (mem Q (Obj 0)), errorCode (mem Q (Obj 0)),
       currentLineNumber (mem Q (Obj 0))))
     (then_do (basic_load_program (Some (Obj 0))
              (Some (lines_of [''10 LET Y = 5'', ''20 LET Y = 10 / 0'', ''30 LET Y = 7''])) boot)
        (basic_run_program (Some (Obj 0)))) =
   Some (0, [\<lparr>name = ''Y'', dimensions = [], size = 0, payload = NumericValue 5\<rparr>],
         ERR_DIVISION_BY_ZERO, 20)"
  by (simp add: run_simps)

text \<open>
  C4.  The claim fails on the code: for the identifier \<^verbatim>\<open>ABS\<close> of \<^verbatim>\<open>ABS(-5)\<close>, which is
  longer than one character, is no keyword and has \<^verbatim>\<open>(\<close> right behind it, the lexer
  emits a variable token, not a function-name token.  The test for the parenthesis
  reads \<^verbatim>\<open>*(*linePtr - 1)\<close>, the last character of the identifier.  (The store is
  the NUL behind the identifier that is taken back.)
\<close>

theorem identifier_before_paren_is_variable:
  "lex_token ''ABS(-5)'' =
     (Some \<lparr>type = TOK_VARIABLE, stringValue = ''ABS'', floatValue = 0\<rparr>, ''(-5)'', Restored)"
  by (simp add: char_simps lex_simps limit_defs)

text \<open>
  C1.  The claim fails on the code: the program \<^verbatim>\<open>10 FOR I=1 TO 5 STEP 2\<close>,
  \<^verbatim>\<open>20 NEXT I\<close>, loaded and run, ends successfully with I = 1 and an empty FOR stack.
  Each line is executed once; NEXT only pops the stack.
\<close>

theorem for_next_runs_once:
  "map_option (\<lambda>(ok, P). (ok, variables (mem P (Obj 0)), forStackPtr (mem P (Obj 0)),
       errorCode (mem P (Obj 0))))
     (then_do (basic_load_program (Some (Obj 0))
              (Some (lines_of [''10 FOR I=1 TO 5 STEP 2'', ''20 NEXT I''])) boot)
        (basic_run_program (Some (Obj 0)))) =
   Some (1, [\<lparr>name = ''I'', dimensions = [], size = 0, payload = NumericValue 1\<rparr>], 0, ERR_NONE)"
  by (simp add: run_simps)

text \<open>
  C2.  The claim fails on the code, in both halves.  \<^verbatim>\<open>basic_handle_goto\<close> reads the
  line number where the cursor stands behind the keyword, on the blank, so the number
  it looks up is always 0; and a jump that finds its line does not move the run loop.
  First program: \<^verbatim>\<open>GOTO 30\<close> fails with line-not-found at line 10 although line 30
  exists.  Second program: \<^verbatim>\<open>GOTO 0\<close> succeeds and the run goes on with line 20, which
  sets X.
\<close>

theorem goto_does_not_jump:
  "map_option (\<lambda>(ok, P). (ok, variables (mem P (Obj 0)), errorCode (mem P (Obj 0)),
       currentLineNumber (mem P (Obj 0))))
     (then_do (basic_load_program (Some (Obj 0))
              (Some (lines_of [''10 GOTO 30'', ''20 LET X = 1'', ''30 END''])) boot)
        (basic_run_program (Some (Obj 0)))) =
   Some (0, [], ERR_LINE_NOT_FOUND, 10) \<and>
   map_option (\<lambda>(ok, P). (ok, variables (mem P (Obj 0)), errorCode (mem P (Obj 0)),
       currentLineNumber (mem P (Obj 0))))
     (then_do (basic_load_program (Some (Obj 0))
              (Some (lines_of [''0 REM'', ''10 GOTO 0'', ''20 LET X = 1''])) boot)
        (basic_run_program (Some (Obj 0)))) =
   Some (1, [\<lparr>name = ''X'', dimensions = [], size = 0, payload = NumericValue 1\<rparr>],
         ERR_NONE, 20)"
  by (simp add: run_simps)

text \<open>
  C7.  The claim fails on the code.  Loading a line number a second time does not
  replace the line: "remove old line" unlinks the old node together with the new one,
  so line 20 is gone from the table; and when the line is the first of the program the
  removal goes through the NULL \<^verbatim>\<open>previous\<close>, so the call does not return.
\<close>

theorem replacing_a_line_removes_it:
  "map_option (\<lambda>(ok, P). (ok, programLines (mem P (Obj 0))))
     (basic_load_program (Some (Obj 0))
        (Some (lines_of [''10 PRINT 1'', ''20 PRINT 2'', ''20 PRINT 3''])) boot) =
   Some (1, [\<lparr>lineNumber = 10, lineText = ''PRINT 1''\<rparr>]) \<and>
   basic_load_program (Some (Obj 0)) (Some (lines_of [''10 PRINT 1'', ''10 PRINT 3''])) boot = None"
  by (simp add: run_simps)

text \<open>
  C8.  The claim fails on the code: \<^verbatim>\<open>PRINT "A="; A\<close> with A = 3 prints
  \<^verbatim>\<open>A=3.000000\<close> and no newline.  Any \<^verbatim>\<open>;\<close> in the statement clears the flag
  \<^verbatim>\<open>newline\<close>, and nothing sets it again.  The two statements are executed in
  buffers that can be written, and then as the two lines of a program.
\<close>

theorem print_semicolon_suppresses_newline:
  "map_option (\<lambda>(ok, P). (ok, stdout P))
     (then_do (basic_execute_line (Some (Obj 0)) (Some (Writable ''LET A = 3'')) (fresh (Obj 0)))
        (basic_execute_line (Some (Obj 0))
           (Some (Writable (''PRINT '' @ [CHR 0x22] @ ''A='' @ [CHR 0x22] @ ''; A''))))) =
   Some (1, ''A=3.000000'') \<and>
   map_option (\<lambda>(ok, P). (ok, stdout P))
     (then_do (basic_load_program (Some (Obj 0))
              (Some (lines_of [''10 LET A = 3'',
                 ''20 PRINT '' @ [CHR 0x22] @ ''A='' @ [CHR 0x22] @ ''; A''])) boot)
        (basic_run_program (Some (Obj 0)))) =
   Some (1, ''A=3.000000'')"
  by (simp add: run_simps format_6f_3)

text \<open>
  C9.  The claim fails on the code.  After \<^verbatim>\<open>DIM ARR(5)\<close>, the statement
  \<^verbatim>\<open>LET ARR(1) = 100\<close> fails with a syntax error (an equals sign is expected behind the
  name), and evaluating \<^verbatim>\<open>ARR(1)\<close> or \<^verbatim>\<open>ARR(6)\<close> reads the name as a scalar variable:
  both give 0 with the type-mismatch error and leave the cursor on the parenthesis.
  No code reads or writes an array element or raises the array-bounds error.  All
  texts are in buffers that can be written.
\<close>

theorem array_element_is_not_supported:
  "map_option (\<lambda>(ok, P). (ok, errorCode (mem P (Obj 0)), errorMessage (mem P (Obj 0))))
     (then_do (basic_execute_line (Some (Obj 0)) (Some (Writable ''DIM ARR(5)'')) (fresh (Obj 0)))
        (basic_execute_line (Some (Obj 0)) (Some (Writable ''LET ARR(1) = 100'')))) =
   Some (0, ERR_SYNTAX, ''Expected equals sign'') \<and>
   map_option (\<lambda>(ok, P). map_option (\<lambda>(v, p, Q). (v, p, errorCode (mem Q (Obj 0))))
        (basic_evaluate_expression (Obj 0) ''ARR(1)'' P))
     (basic_execute_line (Some (Obj 0)) (Some (Writable ''DIM ARR(5)'')) (fresh (Obj 0))) =
   Some (Some (0, ''(1)'', ERR_TYPE_MISMATCH)) \<and>
   map_option (\<lambda>(ok, P). map_option (\<lambda>(v, p, Q). (v, p, errorCode (mem Q (Obj 0))))
        (basic_evaluate_expression (Obj 0) ''ARR(6)'' P))
     (basic_execute_line (Some (Obj 0)) (Some (Writable ''DIM ARR(5)'')) (fresh (Obj 0))) =
   Some (Some (0, ''(6)'', ERR_TYPE_MISMATCH))"
  by (simp add: run_simps)

text \<open>
  C6.  The claim fails on the code in its first half.  On an empty GOSUB stack RETURN
  returns 0 and leaves the stack empty, but the error it sets is the syntax error,
  code 1, with the message \<^verbatim>\<open>RETURN without GOSUB\<close>: the same code that a malformed
  statement such as \<^verbatim>\<open>LET\<close> sets.  The header has no error of its own for RETURN,
  as it has for NEXT.  The second half holds: on an empty FOR stack NEXT returns 0
  with \<^verbatim>\<open>ERR_NEXT_WITHOUT_FOR\<close>, code 10, and leaves the stack empty.  The handlers
  are called on a state just initialised, in any process and at any cursor; the
  statements are run as programs of one line.
\<close>

theorem return_on_empty_stack_is_a_syntax_error:
  "basic_handle_return r p (basic_init (Some r) P) =
     Some (0, basic_set_error (Some r) ERR_SYNTAX ''RETURN without GOSUB''
               (basic_init (Some r) P)) \<and>
   ERR_SYNTAX = 1 \<and>
   map_option (\<lambda>(ok, Q). (ok, errorCode (mem Q (Obj 0)), errorMessage (mem Q (Obj 0)),
       gosubStackPtr (mem Q (Obj 0)), forStackPtr (mem Q (Obj 0))))
     (then_do (basic_load_program (Some (Obj 0)) (Some (lines_of [''10 RETURN''])) boot)
        (basic_run_program (Some (Obj 0)))) =
   Some (0, 1, ''RETURN without GOSUB'', 0, 0) \<and>
   map_option (\<lambda>(ok, Q). (ok, errorCode (mem Q (Obj 0)), errorMessage (mem Q (Obj 0))))
     (then_do (basic_load_program (Some (Obj 0)) (Some (lines_of [''10 LET''])) boot)
        (basic_run_program (Some (Obj 0)))) =
   Some (0, 1, ''Expected variable name'') \<and>
   basic_handle_next r p (basic_init (Some r) P) =
     Some (0, basic_set_error (Some r) ERR_NEXT_WITHOUT_FOR ''NEXT without FOR''
               (basic_init (Some r) P)) \<and>
   ERR_NEXT_WITHOUT_FOR = 10 \<and>
   map_option (\<lambda>(ok, Q). (ok, errorCode (mem Q (Obj 0)), errorMessage (mem Q (Obj 0)),
       gosubStackPtr (mem Q (Obj 0)), forStackPtr (mem Q (Obj 0))))
     (then_do (basic_load_program (Some (Obj 0)) (Some (lines_of [''10 NEXT I''])) boot)
        (basic_run_program (Some (Obj 0)))) =
   Some (0, 10, ''NEXT without FOR'', 0, 0)"
  by (simp add: run_simps)

text \<open>
  C10.  Called with the NULL state pointer, each of the five session functions works on
  the one global state and on no state of a caller:
  \<^item> whatever the process and the arguments, a call with NULL that returns leaves
    every state object \<open>Obj n\<close> as it was;
  \<^item> the result is the result of the same call on the address of the global state;
  \<^item> calls with NULL see what earlier calls with NULL have written.  In the first
    trace, whatever the memory holds at the start: a program is loaded with NULL; the
    run with NULL executes it (two variables, one frame on each stack); \<^verbatim>\<open>NEXT\<close> and
    \<^verbatim>\<open>RETURN\<close> with NULL pop those frames; \<^verbatim>\<open>LET B = A + 1\<close> with NULL reads A;
    after \<^verbatim>\<open>basic_set_error\<close> with NULL the next run with NULL fails on that error;
    after \<^verbatim>\<open>basic_init\<close> with NULL the table and the variables are empty and a run
    with NULL finds no program;
  \<^item> in the second trace the state \<open>Obj 0\<close> of a caller stays empty while a program is
    loaded and run with NULL, and a run on \<open>Obj 0\<close> finds no program.
\<close>

theorem null_state_is_the_global_state:
  "(\<forall>n. mem (basic_init None P) (Obj n) = mem P (Obj n)) \<and>
   (\<forall>n. mem (basic_set_error None code message P) (Obj n) = mem P (Obj n)) \<and>
   (\<forall>ok P' n. basic_load_program None programText P = Some (ok, P') \<longrightarrow>
      mem P' (Obj n) = mem P (Obj n)) \<and>
   (\<forall>ok P' n. basic_run_program None P = Some (ok, P') \<longrightarrow> mem P' (Obj n) = mem P (Obj n)) \<and>
   (\<forall>ok P' n. basic_execute_line None line P = Some (ok, P') \<longrightarrow>
      mem P' (Obj n) = mem P (Obj n)) \<and>
   basic_init None P = basic_init (Some Global) P \<and>
   basic_load_program None programText P = basic_load_program (Some Global) programText P \<and>
   basic_run_program None P = basic_run_program (Some Global) P \<and>
   basic_execute_line None line P = basic_execute_line (Some Global) line P \<and>
   basic_set_error None code message P = basic_set_error (Some Global) code message P \<and>
   trace Global
     [basic_load_program None
        (Some (lines_of [''0 REM'', ''10 LET A = 5'', ''20 FOR I=1 TO 3'', ''30 GOSUB 0''])),
      basic_run_program None,
      basic_execute_line None (Some (Writable ''NEXT'')),
      basic_execute_line None (Some (Writable ''RETURN'')),
      basic_execute_line None (Some (Writable ''LET B = A + 1'')),
      returning (basic_set_error None ERR_TYPE_MISMATCH ''stop''),
      basic_run_program None,
      returning (basic_init None),
      basic_run_program None]
     (boot\<lparr>mem := m\<rparr>) =
   Some [(1, [0, 10, 20, 30], [], 0, 0, ERR_NONE),
         (1, [0, 10, 20, 30], [(''A'', NumericValue 5), (''I'', NumericValue 1)], 1, 1, ERR_NONE),
         (1, [0, 10, 20, 30], [(''A'', NumericValue 5), (''I'', NumericValue 1)], 0, 1, ERR_NONE),
         (1, [0, 10, 20, 30], [(''A'', NumericValue 5), (''I'', NumericValue 1)], 0, 0, ERR_NONE),
         (1, [0, 10, 20, 30],
          [(''A'', NumericValue 5), (''I'', NumericValue 1), (''B'', NumericValue 6)], 0, 0, ERR_NONE),
         (1, [0, 10, 20, 30],
          [(''A'', NumericValue 5), (''I'', NumericValue 1), (''B'', NumericValue 6)], 0, 0,
          ERR_TYPE_MISMATCH),
         (0, [0, 10, 20, 30],
          [(''A'', NumericValue 5), (''I'', NumericValue 1), (''B'', NumericValue 6)], 0, 0,
          ERR_TYPE_MISMATCH),
         (1, [], [], 0, 0, ERR_NONE),
         (0, [], [], 0, 0, ERR_SYNTAX)] \<and>
   trace (Obj 0)
     [basic_load_program None (Some (lines_of [''10 LET A = 5''])),
      basic_run_program None,
      basic_run_program (Some (Obj 0))]
     (fresh (Obj 0)) =
   Some [(1, [], [], 0, 0, ERR_NONE),
         (1, [], [], 0, 0, ERR_NONE),
         (0, [], [], 0, 0, ERR_SYNTAX)]"
proof (intro conjI allI impI, goal_cases)
  case (1 n)
  show ?case by (rule null_calls_frame(1))
next
  case (2 n)
  show ?case by (rule null_calls_frame(2))
next
  case (3 ok P' n)
  then show ?case by (rule null_calls_frame(3))
next
  case (4 ok P' n)
  then show ?case by (rule null_calls_frame(4))
next
  case (5 ok P' n)
  then show ?case by (rule null_calls_frame(5))
next
  case 6
  show ?case by (rule null_calls(1))
next
  case 7
  show ?case by (rule null_calls(2))
next
  case 8
  show ?case by (rule null_calls(3))
next
  case 9
  show ?case by (rule null_calls(4))
next
  case 10
  show ?case by (rule null_calls(5))
next
  case 11
  show ?case by (rule null_trace)
next
  case 12
  show ?case by (rule caller_state_apart)
qed

theorem null_state_is_the_global_state_witness:
  "basic_load_program None (Some (lines_of [''10 LET A = 5''])) (fresh (Obj 0)) \<noteq> None \<and>
   map_option (\<lambda>(ok, Q). mem Q (Obj 0))
     (basic_load_program None (Some (lines_of [''10 LET A = 5''])) (fresh (Obj 0))) =
     Some (mem (fresh (Obj 0)) (Obj 0)) \<and>
   basic_run_program None (fresh (Obj 0)) \<noteq> None \<and>
   map_option (\<lambda>(ok, Q). mem Q (Obj 0)) (basic_run_program None (fresh (Obj 0))) =
     Some (mem (fresh (Obj 0)) (Obj 0)) \<and>
   basic_execute_line None (Some (Writable ''LET A = 5'')) (fresh (Obj 0)) \<noteq> None \<and>
   map_option (\<lambda>(ok, Q). mem Q (Obj 0))
     (basic_execute_line None (Some (Writable ''LET A = 5'')) (fresh (Obj 0))) =
     Some (mem (fresh (Obj 0)) (Obj 0))"
proof -
  note t = null_state_is_the_global_state [of "fresh (Obj 0)" _ _
      "Some (lines_of [''10 LET A = 5''])" "Some (Writable ''LET A = 5'')"]
  obtain ok1 Q1 where
    l: "basic_load_program None (Some (lines_of [''10 LET A = 5''])) (fresh (Obj 0)) = Some (ok1, Q1)"
    by (cases "basic_load_program None (Some (lines_of [''10 LET A = 5''])) (fresh (Obj 0))")
       (simp_all add: run_simps)
  obtain ok2 Q2 where r: "basic_run_program None (fresh (Obj 0)) = Some (ok2, Q2)"
    by (cases "basic_run_program None (fresh (Obj 0))") (simp_all add: run_simps)
  obtain ok3 Q3 where
    e: "basic_execute_line None (Some (Writable ''LET A = 5'')) (fresh (Obj 0)) = Some (ok3, Q3)"
    by (cases "basic_execute_line None (Some (Writable ''LET A = 5'')) (fresh (Obj 0))")
       (simp_all add: run_simps)
  note c2 = t [THEN conjunct2, THEN conjunct2]
  note c3 = c2 [THEN conjunct2]
  note c4 = c3 [THEN conjunct2]
  have "mem Q1 (Obj 0) = mem (fresh (Obj 0)) (Obj 0)"
    by (rule c2 [THEN conjunct1, rule_format, OF l])
  moreover have "mem Q2 (Obj 0) = mem (fresh (Obj 0)) (Obj 0)"
    by (rule c3 [THEN conjunct1, rule_format, OF r])
  moreover have "mem Q3 (Obj 0) = mem (fresh (Obj 0)) (Obj 0)"
    by (rule c4 [THEN conjunct1, rule_format, OF e])
  ultimately show ?thesis using l r e by simp
qed






end
